theory Spec2Isabelle
  imports Main "HOL-Library.Sublist" "HOL-Library.AList"
begin

section \<open>Strings, errors and formatting\<close>

text \<open>
  Go strings are byte sequences; they are modelled as \<open>string\<close> (a list of bytes).
  The functions below are the parts of the Go standard library that the two
  \<^verbatim>\<open>package.go\<close> files call on strings.
\<close>

text \<open>\<^verbatim>\<open>strings.HasPrefix\<close> and \<^verbatim>\<open>strings.TrimPrefix\<close>: the prefix is cut off when it is
  there, and the string is returned as it is otherwise.\<close>

definition HasPrefix :: "string \<Rightarrow> string \<Rightarrow> bool" where
  "HasPrefix s pre = prefix pre s"

definition TrimPrefix :: "string \<Rightarrow> string \<Rightarrow> string" where
  "TrimPrefix s pre = (if HasPrefix s pre then drop (length pre) s else s)"

text \<open>\<^verbatim>\<open>strings.Index\<close>: the position of the first occurrence of \<open>sep\<close> in \<open>s\<close>,
  \<open>None\<close> where Go returns -1.\<close>

fun Index :: "string \<Rightarrow> string \<Rightarrow> nat option" where
  "Index [] sep = (if sep = [] then Some 0 else None)"
| "Index (c # cs) sep =
     (if prefix sep (c # cs) then Some 0 else map_option Suc (Index cs sep))"

lemma Index_le: "Index s sep = Some m \<Longrightarrow> m + length sep \<le> length s"
proof (induction s arbitrary: m)
  case Nil
  then show ?case by (simp split: if_splits)
next
  case (Cons c cs)
  show ?case
  proof (cases "prefix sep (c # cs)")
    case True
    then have "length sep \<le> length (c # cs)" by (rule prefix_length_le)
    with True Cons.prems show ?thesis by simp
  next
    case False
    with Cons.prems obtain k where "Index cs sep = Some k" "m = Suc k" by auto
    with Cons.IH show ?thesis by fastforce
  qed
qed

text \<open>
  \<^verbatim>\<open>strings.Split(s, sep)\<close> is Go's \<^verbatim>\<open>genSplit\<close> loop: cut at the first occurrence of the
  separator, continue behind it, and end with what is left. Every call in the source
  passes a constant, non-empty separator (\<^verbatim>\<open>"."\<close>, \<^verbatim>\<open>"-"\<close>, two spaces). For the empty separator
  Go explodes the string into its UTF-8 sequences; the model explodes into bytes there,
  which is the same on ASCII, and no call reaches it.
\<close>

function Split :: "string \<Rightarrow> string \<Rightarrow> string list" where
  "Split s sep =
     (if sep = [] then map (\<lambda>c. [c]) s
      else case Index s sep of
             None \<Rightarrow> [s]
           | Some m \<Rightarrow> take m s # Split (drop (m + length sep) s) sep)"
  by pat_completeness auto
termination
proof (relation "measure (\<lambda>(s, sep). length s)")
  show "wf (measure (\<lambda>(s, sep). length s))" by simp
next
  fix s sep :: string and m :: nat
  assume "sep \<noteq> []" and "Index s sep = Some m"
  then have "m + length sep \<le> length s" and "0 < length sep"
    by (simp_all add: Index_le)
  then have "length s - (m + length sep) < length s" by arith
  then show "((drop (m + length sep) s, sep), (s, sep)) \<in> measure (\<lambda>(s, sep). length s)"
    by simp
qed

declare Split.simps [simp del]

text \<open>Decimal rendering of a non-negative integer, as the verb \<^verbatim>\<open>%d\<close> prints it.\<close>

definition digit :: "nat \<Rightarrow> char" where
  "digit d = ''0123456789'' ! d"

function itoa :: "nat \<Rightarrow> string" where
  "itoa n = (if n < 10 then [digit n] else itoa (n div 10) @ [digit (n mod 10)])"
  by pat_completeness auto
termination
  by (relation "measure id") auto

declare itoa.simps [simp del]

text \<open>
  Errors are values. \<open>Errorf m\<close> is an error made in place with the message \<open>m\<close>
  (\<^verbatim>\<open>errors.Errorf\<close>, and any error of a collaborator); \<open>Wrap e m\<close> is \<^verbatim>\<open>errors.Wrap(e, m)\<close>,
  whose message is \<open>m\<close>, a colon, and the message of the cause.
\<close>

datatype error = Errorf string | Wrap error string

fun Error :: "error \<Rightarrow> string" where
  "Error (Errorf m) = m"
| "Error (Wrap e m) = m @ '': '' @ Error e"

section \<open>Package gapps: the enumerations and ParsePackageParts\<close>

text \<open>
  \<^verbatim>\<open>Platform\<close>, \<^verbatim>\<open>Android\<close> and \<^verbatim>\<open>Variant\<close> are numeric enumerations; their declarations,
  string tables and lookup functions are not among the source files. What the source
  shows is that \<open>0\<close> is a value of each (the zero results of \<^verbatim>\<open>ParsePackageParts\<close>).
  The lookups \<^verbatim>\<open>PlatformString\<close>, \<^verbatim>\<open>AndroidString\<close>, \<^verbatim>\<open>VariantString\<close> and the method
  \<^verbatim>\<open>Platform.String\<close> are therefore parameters of the model.
\<close>

type_synonym Platform = nat
type_synonym Android = nat
type_synonym Variant = nat

record Enums =
  PlatformString :: "string \<Rightarrow> error + Platform"
  AndroidString :: "string \<Rightarrow> error + Android"
  VariantString :: "string \<Rightarrow> error + Variant"
  Platform_String :: "Platform \<Rightarrow> string"

definition parsingErrText :: string where
  "parsingErrText = ''parsing error''"

text \<open>
  \<^verbatim>\<open>ParsePackageParts\<close> (gapps/package.go, lines 93-114) returns Go's four results. The
  reads \<^verbatim>\<open>args[0]\<close>, \<^verbatim>\<open>args[1]\<close>, \<^verbatim>\<open>args[2]\<close> stand behind the length check and are in
  range.
\<close>

definition ParsePackageParts ::
  "Enums \<Rightarrow> string list \<Rightarrow> Platform \<times> Android \<times> Variant \<times> error option" where
  "ParsePackageParts E args =
     (if length args \<noteq> 3 then
        (0, 0, 0,
         Some (Errorf (''bad number of arguments: want 4, got '' @ itoa (length args))))
      else
        (case PlatformString E (args ! 0) of
           Inl err \<Rightarrow> (0, 0, 0, Some (Wrap err parsingErrText))
         | Inr platform \<Rightarrow>
             (case AndroidString E (args ! 1) of
                Inl err \<Rightarrow> (0, 0, 0, Some (Wrap err parsingErrText))
              | Inr android \<Rightarrow>
                  (case VariantString E (args ! 2) of
                     Inl err \<Rightarrow> (0, 0, 0, Some (Wrap err parsingErrText))
                   | Inr variant \<Rightarrow> (platform, android, variant, None)))))"

section \<open>Package storage: the data and the collaborators\<close>

text \<open>The struct \<^verbatim>\<open>Package\<close> of internal/pkg/storage/package.go (lines 24-35).\<close>

record Package =
  Name :: string
  Date :: string
  OriginURL :: string
  LocalURL :: string
  RemoteURL :: string
  MD5 :: string
  Size :: int
  Platform :: Platform
  Android :: Android
  Variant :: Variant

text \<open>What the code reads of a \<^verbatim>\<open>github.ReleaseAsset\<close>: the results of its three getters.\<close>

record ReleaseAsset =
  GetName :: string
  GetBrowserDownloadURL :: string
  GetSize :: int

text \<open>
  The configuration is a table from keys to strings; \<^verbatim>\<open>GetString\<close> of a key that is not
  set is the empty string.
\<close>

type_synonym Config = "string \<rightharpoonup> string"

definition GetString :: "Config \<Rightarrow> string \<Rightarrow> string" where
  "GetString cfg k = (case cfg k of None \<Rightarrow> [] | Some v \<Rightarrow> v)"

definition gappsSeparator :: string where
  "gappsSeparator = ''-''"

text \<open>An open file is known by the path it was opened at.\<close>

datatype File = File string

text \<open>
  An HTTP request as the code builds it, and the response as the code reads it:
  \<open>ReadBody\<close> is what \<^verbatim>\<open>ioutil.ReadAll(resp.Body)\<close> gives. The header, a Go map from
  keys to lists of values, is an association list, read with \<open>map_of\<close>.
\<close>

record Request =
  Method :: string
  URL :: string
  Body :: File
  Header :: "(string \<times> string list) list"

record Response =
  StatusCode :: int
  Status :: string
  ReadBody :: "error + string"

definition MethodPut :: string where
  "MethodPut = ''PUT''"

definition StatusOK :: int where
  "StatusOK = 200"

text \<open>\<^verbatim>\<open>req.Header.Set(key, value)\<close>; both keys the code sets are in canonical form already.\<close>

definition Header_Set :: "Request \<Rightarrow> string \<Rightarrow> string \<Rightarrow> Request" where
  "Header_Set req k v = req\<lparr>Header := AList.update k [v] (Header req)\<rparr>"

text \<open>The file mode \<^verbatim>\<open>0755\<close>, an octal literal.\<close>

definition mode_0755 :: nat where
  "mode_0755 = 7 * 8 ^ 2 + 5 * 8 + 5"

text \<open>
  The collaborators: the download queue, the file system, the HTTP client, and the pure
  library functions \<^verbatim>\<open>filepath.Clean\<close>, \<^verbatim>\<open>fmt.Sprintf\<close> (a template and its one string
  argument) and \<^verbatim>\<open>time.Parse\<close> (a layout and a value; the code drops the time and keeps
  the error). A world fixes what each call answers; within one call of the functions
  below no collaborator is asked the same thing twice.
\<close>

record World =
  dq_AddMultiple :: "string \<Rightarrow> string \<Rightarrow> int \<Rightarrow> int \<Rightarrow> error + string"
  dq_AddSingle :: "string \<Rightarrow> error + string"
  os_MkdirAll :: "string \<Rightarrow> nat \<Rightarrow> error option"
  os_Rename :: "string \<Rightarrow> string \<Rightarrow> error option"
  os_Chmod :: "string \<Rightarrow> nat \<Rightarrow> error option"
  os_Open :: "string \<Rightarrow> error + File"
  ioutil_ReadAll :: "File \<Rightarrow> error + string"
  http_NewRequest :: "string \<Rightarrow> string \<Rightarrow> error option"
  http_Do :: "Request \<Rightarrow> error + Response"
  filepath_Clean :: "string \<Rightarrow> string"
  fmt_Sprintf :: "string \<Rightarrow> string \<Rightarrow> string"
  time_Parse :: "string \<Rightarrow> string \<Rightarrow> error option"

text \<open>
  The effects of a call, in the order they happen: the calls to the collaborators with
  their arguments, the log lines, and the stores into the URL fields of the package
  behind the pointer \<^verbatim>\<open>p\<close>. The last three are effects of package gapps only.
\<close>

datatype event =
    DqAddMultiple string string int int
  | DqAddSingle string
  | OsMkdirAll string nat
  | OsRename string string
  | OsChmod string nat
  | OsRemove string
  | OsOpen string
  | FileReadAll File
  | FileClose File
  | HttpDo Request
  | BodyReadAll
  | BodyClose
  | LogDebug string
  | LogDebugf string "string list"
  | SetLocalURL string
  | SetRemoteURL string
  | UtilsDownload string int int
  | UtilsCreateFile string string bool
  | SetMirrorURL string

section \<open>Package storage: move and CreateMirror\<close>

text \<open>
  \<^verbatim>\<open>Package.move\<close> (lines 107-126) returns the path and the error, and the calls it made.
\<close>

definition move ::
  "Enums \<Rightarrow> World \<Rightarrow> Package \<Rightarrow> string \<Rightarrow> string \<Rightarrow> (string \<times> error option) \<times> event list" where
  "move E W p origin destFolder =
     (let path = destFolder @ Platform_String E (Platform p) @ ''/'' @ Date p in
      case os_MkdirAll W path mode_0755 of
        Some err \<Rightarrow> (([], Some (Wrap err ''unable to create folder'')), [OsMkdirAll path mode_0755])
      | None \<Rightarrow>
          (let path' = path @ ''/'' @ Name p in
           case os_Rename W origin path' of
             Some err \<Rightarrow>
               (([], Some (Wrap err ''unable to move file'')),
                [OsMkdirAll path mode_0755, OsRename origin path'])
           | None \<Rightarrow>
               (case os_Chmod W path' mode_0755 of
                  Some err \<Rightarrow>
                    (([], Some (Wrap err ''unable to set file permissions'')),
                     [OsMkdirAll path mode_0755, OsRename origin path', OsChmod path' mode_0755])
                | None \<Rightarrow>
                    ((path', None),
                     [OsMkdirAll path mode_0755, OsRename origin path',
                      OsChmod path' mode_0755]))))"

text \<open>
  \<^verbatim>\<open>CreateMirror\<close>, lines 51-68: the local placement. The results are the error of an
  early return, the file path, the package, the effects, and the calls deferred to the
  end of \<^verbatim>\<open>CreateMirror\<close> (the newest first).
\<close>

definition place_local ::
  "Enums \<Rightarrow> World \<Rightarrow> Config \<Rightarrow> Package \<Rightarrow> string \<Rightarrow>
     error option \<times> string \<times> Package \<times> event list \<times> event list" where
  "place_local E W cfg p filePath =
     (let localPath = GetString cfg ''gapps.local_path'' in
      if localPath \<noteq> [] then
        (case move E W p filePath localPath of
           ((filePath', Some err), tr) \<Rightarrow>
             (Some (Wrap err ''unable to move the file to storage''), filePath', p, tr, [])
         | ((filePath', None), tr) \<Rightarrow>
             (let tr1 = tr @ [LogDebugf ''Package moved to %s'' [filePath']];
                  localURL = GetString cfg ''gapps.local_url''
              in if localURL \<noteq> [] then
                   (let relPath = TrimPrefix filePath' localPath;
                        p' = p\<lparr>LocalURL := fmt_Sprintf W localURL relPath\<rparr>
                    in (None, filePath', p',
                        tr1 @ [SetLocalURL (LocalURL p'),
                               LogDebugf ''Local URL is %s'' [LocalURL p']], []))
                 else (None, filePath', p, tr1, [])))
      else (None, filePath, p, [LogDebug ''Temp file will be deleted''], [OsRemove filePath]))"

text \<open>
  \<^verbatim>\<open>CreateMirror\<close>, lines 70-102: the upload. The results are the error, the package, the
  effects and the deferred calls (the newest first).
\<close>

definition upload_remote ::
  "World \<Rightarrow> Config \<Rightarrow> Package \<Rightarrow> string \<Rightarrow>
     error option \<times> Package \<times> event list \<times> event list" where
  "upload_remote W cfg p filePath =
     (let remoteURL = GetString cfg ''gapps.remote_url'' in
      if remoteURL \<noteq> [] then
        (let tr0 = [OsOpen (filepath_Clean W filePath)] in
         case os_Open W (filepath_Clean W filePath) of
           Inl err \<Rightarrow> (Some (Wrap err ''unable to create temp file''), p, tr0, [])
         | Inr tmpFile \<Rightarrow>
             (let d0 = [FileClose tmpFile];
                  url = fmt_Sprintf W remoteURL (Name p)
              in case http_NewRequest W MethodPut url of
                   Some err \<Rightarrow> (Some (Wrap err ''unable to create upload request''), p, tr0, d0)
                 | None \<Rightarrow>
                     (let req = Header_Set
                            (Header_Set
                               \<lparr>Method = MethodPut, URL = url, Body = tmpFile,
                                Header = []\<rparr>
                               ''Content-Type'' ''application/zip'')
                            ''Max-Days'' ''7'';
                          tr1 = tr0 @ [HttpDo req]
                      in case http_Do W req of
                           Inl err \<Rightarrow>
                             (Some (Wrap err ''unable to make upload request''), p, tr1, d0)
                         | Inr resp \<Rightarrow>
                             (let d1 = BodyClose # d0 in
                              if StatusCode resp \<noteq> StatusOK then
                                (Some (Errorf (''unable to make upload request: '' @ Status resp)),
                                 p, tr1, d1)
                              else
                                (case ReadBody resp of
                                   Inl err \<Rightarrow>
                                     (Some (Wrap err ''unable to read mirror response body''),
                                      p, tr1 @ [BodyReadAll], d1)
                                 | Inr result \<Rightarrow>
                                     (let p' = p\<lparr>RemoteURL := result\<rparr> in
                                      (None, p',
                                       tr1 @ [BodyReadAll, SetRemoteURL (RemoteURL p'),
                                              LogDebugf ''File uploaded, remote URL is %s''
                                                [RemoteURL p']],
                                       d1)))))))
      else (None, p, [], []))"

text \<open>
  \<^verbatim>\<open>Package.CreateMirror\<close> (lines 38-105): the guard, the download, the two steps above, and
  the deferred calls, run in reverse order of their registration when the function
  returns. The results are the error, the package behind \<^verbatim>\<open>p\<close> after the call, and the
  effects.
\<close>

definition CreateMirror ::
  "Enums \<Rightarrow> World \<Rightarrow> Config \<Rightarrow> Package \<Rightarrow> error option \<times> Package \<times> event list" where
  "CreateMirror E W cfg p =
     (if GetString cfg ''gapps.local_url'' \<noteq> [] \<and> LocalURL p \<noteq> [] \<or>
         GetString cfg ''gapps.remote_url'' \<noteq> [] \<and> RemoteURL p \<noteq> []
      then (None, p, [])
      else
        (case dq_AddMultiple W (OriginURL p) (MD5 p) 20 (Size p) of
           Inl err \<Rightarrow>
             (Some (Wrap err ''unable to read file body''), p,
              [DqAddMultiple (OriginURL p) (MD5 p) 20 (Size p)])
         | Inr filePath \<Rightarrow>
             (let tr0 = [DqAddMultiple (OriginURL p) (MD5 p) 20 (Size p),
                         LogDebugf ''Package downloaded to %s'' [filePath]]
              in case place_local E W cfg p filePath of
                   (Some err, filePath1, p1, tr1, d1) \<Rightarrow> (Some err, p1, tr0 @ tr1 @ d1)
                 | (None, filePath1, p1, tr1, d1) \<Rightarrow>
                     (case upload_remote W cfg p1 filePath1 of
                        (err, p2, tr2, d2) \<Rightarrow> (err, p2, tr0 @ tr1 @ tr2 @ d2 @ d1)))))"

section \<open>Package storage: getMD5 and parseAsset\<close>

text \<open>
  A Go call either returns or panics; \<^verbatim>\<open>getMD5\<close> reads element 0 of a slice with no
  length check before it, so its model has both outcomes.
\<close>

datatype 'a outcome = Return 'a | Panic

text \<open>\<^verbatim>\<open>getMD5\<close> (lines 142-160).\<close>

definition getMD5 :: "World \<Rightarrow> string \<Rightarrow> (string \<times> error option) outcome \<times> event list" where
  "getMD5 W url =
     (case dq_AddSingle W url of
        Inl err \<Rightarrow>
          (Return ([], Some (Wrap err ''unable to download MD5 file'')), [DqAddSingle url])
      | Inr filePath \<Rightarrow>
          (let tr0 = [DqAddSingle url, OsOpen (filepath_Clean W filePath)] in
           case os_Open W (filepath_Clean W filePath) of
             Inl err \<Rightarrow> (Return ([], Some (Wrap err ''unable to open MD5 file'')), tr0)
           | Inr file \<Rightarrow>
               (let tr1 = tr0 @ [FileReadAll file, FileClose file] in
                case ioutil_ReadAll W file of
                  Inl err \<Rightarrow> (Return ([], Some (Wrap err ''unable to read MD5 file'')), tr1)
                | Inr result \<Rightarrow>
                    (case Split result ''  '' of
                       [] \<Rightarrow> (Panic, tr1)
                     | md5 # _ \<Rightarrow> (Return (md5, None), tr1)))))"

text \<open>
  \<^verbatim>\<open>parseAsset\<close> (lines 164-200) returns Go's two results: the pointer to the package
  (\<open>None\<close> is \<^verbatim>\<open>nil\<close>) and the error. The reads \<^verbatim>\<open>parts[0..2]\<close>, \<^verbatim>\<open>parts[:3]\<close> and \<^verbatim>\<open>parts[3]\<close>
  stand behind the length checks and are in range. The two URL fields are not named in
  the struct literal and are empty.
\<close>

definition parseAsset ::
  "Enums \<Rightarrow> World \<Rightarrow> Config \<Rightarrow> ReleaseAsset \<Rightarrow> string \<Rightarrow> Package option \<times> error option" where
  "parseAsset E W cfg asset md5Sum =
     (let name = GetName asset;
          parts = Split (TrimPrefix name (GetString cfg ''gapps.prefix'' @ gappsSeparator)) ''.''
      in if length parts \<noteq> 3 then (None, Some (Errorf (''incorrect package name: '' @ name)))
         else
           (let path = parts ! 0 @ parts ! 1; ext = parts ! 2 in
            if ext \<noteq> ''zip'' then
              (None, Some (Errorf (''incorrect package extension: '' @ ext)))
            else
              (let parts = Split path gappsSeparator in
               if length parts \<noteq> 4 then
                 (None, Some (Errorf (''incorrect package name: '' @ name)))
               else
                 (case ParsePackageParts E (take 3 parts) of
                    (platform, android, variant, Some err) \<Rightarrow> (None, Some err)
                  | (platform, android, variant, None) \<Rightarrow>
                      (case time_Parse W (GetString cfg ''gapps.time_format'') (parts ! 3) of
                         Some err \<Rightarrow> (None, Some (Wrap err ''unable to parse time''))
                       | None \<Rightarrow>
                           (Some \<lparr>Name = name, Date = parts ! 3,
                                  OriginURL = GetBrowserDownloadURL asset,
                                  LocalURL = [], RemoteURL = [], MD5 = md5Sum,
                                  Size = GetSize asset, Platform = platform,
                                  Android = android, Variant = variant\<rparr>,
                            None))))))"

section \<open>Package gapps: the earlier getMD5, parseAsset and CreateMirror\<close>

text \<open>
  \<^verbatim>\<open>getMD5\<close> of gapps/package.go (lines 130-137). \<^verbatim>\<open>utils.Download\<close> is code of the
  repository that is not among the source files; what it answers is a parameter.
\<close>

definition gapps_getMD5 ::
  "(string \<Rightarrow> int \<Rightarrow> int \<Rightarrow> error + string) \<Rightarrow> string \<Rightarrow> (string \<times> error option) outcome" where
  "gapps_getMD5 Download url =
     (case Download url 1 0 of
        Inl err \<Rightarrow> Return ([], Some err)
      | Inr body \<Rightarrow>
          (case Split body ''  '' of
             [] \<Rightarrow> Panic
           | md5 # _ \<Rightarrow> Return (md5, None)))"

text \<open>
  The struct \<^verbatim>\<open>Package\<close> of gapps/package.go (lines 26-36), which has one mirror URL, and
  the constants of lines 16-23.
\<close>

record gapps_Package =
  g_Name :: string
  g_Date :: string
  g_OriginURL :: string
  g_MirrorURL :: string
  g_MD5 :: string
  g_Size :: int
  g_Platform :: Platform
  g_Android :: Android
  g_Variant :: Variant

definition TimeFormat :: string where
  "TimeFormat = ''20060102''"

definition gappsPrefix :: string where
  "gappsPrefix = ''open_gapps''"

definition uploadURL :: string where
  "uploadURL = ''https://transfer.sh/%s''"

text \<open>
  \<^verbatim>\<open>parseAsset\<close> of gapps/package.go (lines 141-177): the prefix and the time format are
  constants.
\<close>

definition gapps_parseAsset ::
  "Enums \<Rightarrow> World \<Rightarrow> ReleaseAsset \<Rightarrow> string \<Rightarrow> gapps_Package option \<times> error option" where
  "gapps_parseAsset E W asset md5Sum =
     (let name = GetName asset;
          parts = Split (TrimPrefix name (gappsPrefix @ gappsSeparator)) ''.''
      in if length parts \<noteq> 3 then (None, Some (Errorf (''incorrect package name: '' @ name)))
         else
           (let path = parts ! 0 @ parts ! 1; ext = parts ! 2 in
            if ext \<noteq> ''zip'' then
              (None, Some (Errorf (''incorrect package extension: '' @ ext)))
            else
              (let parts = Split path gappsSeparator in
               if length parts \<noteq> 4 then
                 (None, Some (Errorf (''incorrect package name: '' @ name)))
               else
                 (case ParsePackageParts E (take 3 parts) of
                    (platform, android, variant, Some err) \<Rightarrow> (None, Some err)
                  | (platform, android, variant, None) \<Rightarrow>
                      (case time_Parse W TimeFormat (parts ! 3) of
                         Some err \<Rightarrow> (None, Some (Wrap err ''unable to parse time''))
                       | None \<Rightarrow>
                           (Some \<lparr>g_Name = name, g_Date = parts ! 3,
                                  g_OriginURL = GetBrowserDownloadURL asset,
                                  g_MirrorURL = [], g_MD5 = md5Sum,
                                  g_Size = GetSize asset, g_Platform = platform,
                                  g_Android = android, g_Variant = variant\<rparr>,
                            None))))))"

text \<open>
  \<^verbatim>\<open>CreateMirror\<close> of gapps/package.go (lines 39-90). \<^verbatim>\<open>utils.Download\<close> and
  \<^verbatim>\<open>utils.CreateFile\<close> are code of the repository that is not among the source files; what
  they answer are parameters. The deferred calls run when the function returns, the
  newest first.
\<close>

definition gapps_CreateMirror ::
  "(string \<Rightarrow> int \<Rightarrow> int \<Rightarrow> error + string) \<Rightarrow> (string \<Rightarrow> string \<Rightarrow> bool \<Rightarrow> error + string) \<Rightarrow>
     World \<Rightarrow> gapps_Package \<Rightarrow> error option \<times> gapps_Package \<times> event list" where
  "gapps_CreateMirror Download CreateFile W p =
     (if g_MirrorURL p \<noteq> [] then (None, p, [])
      else
        (case Download (g_OriginURL p) 20 (g_Size p) of
           Inl err \<Rightarrow>
             (Some (Wrap err ''unable to read file body''), p,
              [UtilsDownload (g_OriginURL p) 20 (g_Size p)])
         | Inr body \<Rightarrow>
             (let tr0 = [UtilsDownload (g_OriginURL p) 20 (g_Size p),
                         UtilsCreateFile [] body True]
              in case CreateFile [] body True of
                   Inl err \<Rightarrow> (Some (Wrap err ''unable to create temp file''), p, tr0)
                 | Inr tmpFileName \<Rightarrow>
                     (let d0 = [OsRemove tmpFileName];
                          tr1 = tr0 @ [OsOpen tmpFileName]
                      in case os_Open W tmpFileName of
                           Inl err \<Rightarrow>
                             (Some (Wrap err ''unable to open temp file''), p, tr1 @ d0)
                         | Inr tmpFile \<Rightarrow>
                             (let d1 = FileClose tmpFile # d0;
                                  url = fmt_Sprintf W uploadURL (g_Name p)
                              in case http_NewRequest W MethodPut url of
                                   Some err \<Rightarrow>
                                     (Some (Wrap err ''unable to create upload request''), p,
                                      tr1 @ d1)
                                 | None \<Rightarrow>
                                     (let req = Header_Set
                                            (Header_Set
                                               \<lparr>Method = MethodPut, URL = url, Body = tmpFile,
                                                Header = []\<rparr>
                                               ''Content-Type'' ''application/zip'')
                                            ''Max-Days'' ''7'';
                                          tr2 = tr1 @ [HttpDo req]
                                      in case http_Do W req of
                                           Inl err \<Rightarrow>
                                             (Some (Wrap err ''unable to make upload request''),
                                              p, tr2 @ d1)
                                         | Inr resp \<Rightarrow>
                                             (let d2 = BodyClose # d1 in
                                              if StatusCode resp \<noteq> StatusOK then
                                                (Some (Errorf
                                                   (''unable to make upload request: '' @
                                                    Status resp)),
                                                 p, tr2 @ d2)
                                              else
                                                (case ReadBody resp of
                                                   Inl err \<Rightarrow>
                                                     (Some (Wrap err
                                                        ''unable to read mirror response body''),
                                                      p, tr2 @ [BodyReadAll] @ d2)
                                                 | Inr result \<Rightarrow>
                                                     (None, p\<lparr>g_MirrorURL := result\<rparr>,
                                                      tr2 @ [BodyReadAll, SetMirrorURL result]
                                                        @ d2)))))))))"

section \<open>Sample inputs\<close>

text \<open>
  Concrete tables, worlds and packages at which the theorems below are evaluated. The
  enumeration tables are not among the source files; the sample has one value of each
  enumeration, under the tokens of the release names (\<^verbatim>\<open>arm64\<close>, \<^verbatim>\<open>110\<close> for Android 11.0,
  \<^verbatim>\<open>pico\<close>).
\<close>

definition sample_enums :: Enums where
  "sample_enums =
     \<lparr>PlatformString = (\<lambda>s. if s = ''arm64'' then Inr 2
                             else Inl (Errorf (s @ '' does not belong to Platform values''))),
      AndroidString = (\<lambda>s. if s = ''110'' then Inr 9
                            else Inl (Errorf (s @ '' does not belong to Android values''))),
      VariantString = (\<lambda>s. if s = ''pico'' then Inr 1
                            else Inl (Errorf (s @ '' does not belong to Variant values''))),
      Platform_String = (\<lambda>p. if p = 2 then ''arm64'' else ''Platform(?)'')\<rparr>"

text \<open>
  The sample \<^verbatim>\<open>Sprintf\<close> puts the argument in place of the first \<^verbatim>\<open>%s\<close> of the template, which
  is what \<^verbatim>\<open>fmt.Sprintf\<close> does with a template that has this one verb and a string argument.
  The sample \<^verbatim>\<open>time.Parse\<close> accepts the values that are as long as the layout. In the sample
  world every call succeeds; the other worlds change one answer of it.
\<close>

fun sample_Sprintf :: "string \<Rightarrow> string \<Rightarrow> string" where
  "sample_Sprintf [] a = []"
| "sample_Sprintf [c] a = [c]"
| "sample_Sprintf (c # d # f) a =
     (if c = CHR ''%'' \<and> d = CHR ''s'' then a @ f else c # sample_Sprintf (d # f) a)"

definition sample_response :: Response where
  "sample_response =
     \<lparr>StatusCode = 200, Status = ''200 OK'', ReadBody = Inr ''https://transfer.sh/Ab3/pkg.zip''\<rparr>"

definition sample_world :: World where
  "sample_world =
     \<lparr>dq_AddMultiple = (\<lambda>url md5 retries size. Inr ''/tmp/download-1''),
      dq_AddSingle = (\<lambda>url. Inr ''/tmp/download-2''),
      os_MkdirAll = (\<lambda>path mode. None),
      os_Rename = (\<lambda>old new. None),
      os_Chmod = (\<lambda>path mode. None),
      os_Open = (\<lambda>path. Inr (File path)),
      ioutil_ReadAll = (\<lambda>file. Inr ''0cc175b9c0f1b6a831c399e269772661  open_gapps-arm64-11.0-pico-20230101.zip''),
      http_NewRequest = (\<lambda>method url. None),
      http_Do = (\<lambda>req. Inr sample_response),
      filepath_Clean = (\<lambda>path. path),
      fmt_Sprintf = sample_Sprintf,
      time_Parse = (\<lambda>layout v. if length v = length layout then None
                                else Some (Errorf ''parsing time: cannot parse''))\<rparr>"

definition sample_package :: Package where
  "sample_package =
     \<lparr>Name = ''open_gapps-arm64-11.0-pico-20230101.zip'', Date = ''20230101'',
      OriginURL = ''https://github.com/opengapps/arm64/releases/download/20230101/open_gapps-arm64-11.0-pico-20230101.zip'',
      LocalURL = [], RemoteURL = [], MD5 = ''0cc175b9c0f1b6a831c399e269772661'',
      Size = 100, Platform = 2, Android = 9, Variant = 1\<rparr>"

definition cfg_both :: Config where
  "cfg_both = [''gapps.prefix'' \<mapsto> ''open_gapps'', ''gapps.time_format'' \<mapsto> ''20060102'',
     ''gapps.local_path'' \<mapsto> ''/data/'', ''gapps.local_url'' \<mapsto> ''https://mirror.example/%s'',
     ''gapps.remote_url'' \<mapsto> ''https://transfer.sh/%s'']"

definition local_only :: Package where
  "local_only = sample_package\<lparr>LocalURL := ''https://mirror.example/arm64/20230101/open_gapps-arm64-11.0-pico-20230101.zip''\<rparr>"

definition failing_download :: World where
  "failing_download =
     sample_world\<lparr>dq_AddMultiple := (\<lambda>url md5 retries size. Inl (Errorf ''retries exceeded''))\<rparr>"

definition sample_request :: Request where
  "sample_request =
     \<lparr>Method = ''PUT'', URL = ''https://transfer.sh/open_gapps-arm64-11.0-pico-20230101.zip'',
      Body = File ''/data/arm64/20230101/open_gapps-arm64-11.0-pico-20230101.zip'',
      Header = [(''Content-Type'', [''application/zip'']), (''Max-Days'', [''7''])]\<rparr>"

definition created_response :: Response where
  "created_response =
     \<lparr>StatusCode = 201, Status = ''201 Created'',
      ReadBody = Inr ''https://transfer.sh/Ab3/pkg.zip''\<rparr>"

definition created_world :: World where
  "created_world = sample_world\<lparr>http_Do := (\<lambda>req. Inr created_response)\<rparr>"

definition cfg_url_only :: Config where
  "cfg_url_only = [''gapps.local_url'' \<mapsto> ''https://mirror.example/%s'']"

definition cfg_remote_only :: Config where
  "cfg_remote_only = [''gapps.remote_url'' \<mapsto> ''https://transfer.sh/%s'']"

definition empty_response :: Response where
  "empty_response = \<lparr>StatusCode = 200, Status = ''200 OK'', ReadBody = Inr []\<rparr>"

definition empty_body_world :: World where
  "empty_body_world = sample_world\<lparr>http_Do := (\<lambda>req. Inr empty_response)\<rparr>"

definition sample_sidecar :: string where
  "sample_sidecar =
     ''0cc175b9c0f1b6a831c399e269772661  open_gapps-arm64-11.0-pico-20230101.zip''"

definition bare_sidecar :: string where
  "bare_sidecar = ''0cc175b9c0f1b6a831c399e269772661'' @ [CHR 0x0A]"

definition bare_world :: World where
  "bare_world = sample_world\<lparr>ioutil_ReadAll := (\<lambda>file. Inr bare_sidecar)\<rparr>"

text \<open>
  A release asset of a given name, and a table of the enumerations in which the android
  token is written with its dot.
\<close>

definition sample_asset :: "string \<Rightarrow> ReleaseAsset" where
  "sample_asset name =
     \<lparr>GetName = name,
      GetBrowserDownloadURL =
        ''https://github.com/opengapps/arm64/releases/download/20230101/'' @ name,
      GetSize = 100\<rparr>"

definition dotted_enums :: Enums where
  "dotted_enums =
     sample_enums
       \<lparr>AndroidString := (\<lambda>s. if s = ''11.0'' then Inr 9
                              else Inl (Errorf (s @ '' does not belong to Android values'')))\<rparr>"

text \<open>A world whose upload is answered with status 200 and a body that cannot be read.\<close>

definition unread_response :: Response where
  "unread_response =
     \<lparr>StatusCode = 200, Status = ''200 OK'', ReadBody = Inl (Errorf ''unexpected EOF'')\<rparr>"

definition unread_world :: World where
  "unread_world = sample_world\<lparr>http_Do := (\<lambda>req. Inr unread_response)\<rparr>"

section \<open>Vocabulary of the claims\<close>

text \<open>The error among the four results of \<^verbatim>\<open>ParsePackageParts\<close>.\<close>

definition parts_err :: "Enums \<Rightarrow> string list \<Rightarrow> error option" where
  "parts_err E args = snd (snd (snd (ParsePackageParts E args)))"

definition already_mirrored :: "Config \<Rightarrow> Package \<Rightarrow> bool" where
  "already_mirrored cfg p =
     (GetString cfg ''gapps.local_url'' \<noteq> [] \<and> LocalURL p \<noteq> [] \<or>
      GetString cfg ''gapps.remote_url'' \<noteq> [] \<and> RemoteURL p \<noteq> [])"

definition returns_at_once :: "Enums \<Rightarrow> World \<Rightarrow> Config \<Rightarrow> Package \<Rightarrow> bool" where
  "returns_at_once E W cfg p = (CreateMirror E W cfg p = (None, p, []))"

definition spec_guard :: "Config \<Rightarrow> Package \<Rightarrow> bool" where
  "spec_guard cfg p =
     (GetString cfg ''gapps.local_url'' = [] \<and> GetString cfg ''gapps.remote_url'' = [] \<or>
      (GetString cfg ''gapps.local_url'' \<noteq> [] \<longrightarrow> LocalURL p \<noteq> []) \<and>
      (GetString cfg ''gapps.remote_url'' \<noteq> [] \<longrightarrow> RemoteURL p \<noteq> []))"

definition is_download :: "event \<Rightarrow> bool" where
  "is_download ev = (case ev of DqAddMultiple _ _ _ _ \<Rightarrow> True | DqAddSingle _ \<Rightarrow> True | _ \<Rightarrow> False)"

definition is_SetLocalURL :: "event \<Rightarrow> bool" where
  "is_SetLocalURL ev = (case ev of SetLocalURL _ \<Rightarrow> True | _ \<Rightarrow> False)"

definition is_SetRemoteURL :: "event \<Rightarrow> bool" where
  "is_SetRemoteURL ev = (case ev of SetRemoteURL _ \<Rightarrow> True | _ \<Rightarrow> False)"

definition guard_as_specified :: "Enums \<Rightarrow> World \<Rightarrow> Config \<Rightarrow> Package \<Rightarrow> bool" where
  "guard_as_specified E W cfg p = (returns_at_once E W cfg p = spec_guard cfg p)"

definition is_HttpDo :: "event \<Rightarrow> bool" where
  "is_HttpDo ev = (case ev of HttpDo _ \<Rightarrow> True | _ \<Rightarrow> False)"

definition tiers_populated :: "Config \<Rightarrow> Package \<Rightarrow> bool" where
  "tiers_populated cfg p =
     ((GetString cfg ''gapps.local_url'' \<noteq> [] \<longrightarrow> LocalURL p \<noteq> []) \<and>
      (GetString cfg ''gapps.remote_url'' \<noteq> [] \<longrightarrow> RemoteURL p \<noteq> []))"

definition upload_request :: "World \<Rightarrow> Config \<Rightarrow> Package \<Rightarrow> File \<Rightarrow> Request" where
  "upload_request W cfg p tmpFile =
     \<lparr>Method = ''PUT'',
      URL = fmt_Sprintf W (GetString cfg ''gapps.remote_url'') (Name p),
      Body = tmpFile,
      Header = [(''Content-Type'', [''application/zip'']), (''Max-Days'', [''7''])]\<rparr>"

text \<open>
  \<open>md5\<close> is the part of \<open>content\<close> before its first two consecutive spaces: all of it
  when there are none; otherwise two spaces follow \<open>md5\<close> in \<open>content\<close>, and no two spaces
  start earlier.
\<close>

definition up_to_double_space :: "string \<Rightarrow> string \<Rightarrow> bool" where
  "up_to_double_space content md5 =
     (((\<forall>a b. content \<noteq> a @ ''  '' @ b) \<longrightarrow> md5 = content) \<and>
      (\<forall>a b. content = a @ ''  '' @ b \<longrightarrow>
         (\<exists>rest. content = md5 @ ''  '' @ rest) \<and> length md5 \<le> length a))"

text \<open>
  The two splits of \<^verbatim>\<open>parseAsset\<close>, named: the segments of a file name are what the split
  at dots gives of the name without the configured prefix and the separator; its tokens
  are what the split at the separator gives of the first two segments, concatenated.
\<close>

definition name_segments :: "Config \<Rightarrow> string \<Rightarrow> string list" where
  "name_segments cfg name =
     Split (TrimPrefix name (GetString cfg ''gapps.prefix'' @ ''-'')) ''.''"

definition name_tokens :: "Config \<Rightarrow> string \<Rightarrow> string list" where
  "name_tokens cfg name =
     Split (name_segments cfg name ! 0 @ name_segments cfg name ! 1) ''-''"

text \<open>
  The file name built from a prefix, three tokens and a date, and the round trip as the
  specification states it: tokens the lookups accept and a date the format accepts give
  a name that parses to a package with the values of these tokens and this date.
\<close>

definition asset_name :: "string \<Rightarrow> string \<Rightarrow> string \<Rightarrow> string \<Rightarrow> string \<Rightarrow> string" where
  "asset_name pre platform android variant date =
     pre @ ''-'' @ platform @ ''-'' @ android @ ''-'' @ variant @ ''-'' @ date @ ''.zip''"

definition round_trip ::
  "Enums \<Rightarrow> World \<Rightarrow> Config \<Rightarrow> string \<Rightarrow> string \<Rightarrow> string \<Rightarrow> string \<Rightarrow> ReleaseAsset \<Rightarrow> string \<Rightarrow> bool"
  where
  "round_trip E W cfg platform android variant date asset md5Sum =
     (\<not> isl (PlatformString E platform) \<and> \<not> isl (AndroidString E android) \<and>
      \<not> isl (VariantString E variant) \<and>
      time_Parse W (GetString cfg ''gapps.time_format'') date = None \<and>
      GetName asset = asset_name (GetString cfg ''gapps.prefix'') platform android variant date
      \<longrightarrow>
      (\<exists>p. parseAsset E W cfg asset md5Sum = (Some p, None) \<and>
           PlatformString E platform = Inr (Platform p) \<and>
           AndroidString E android = Inr (Android p) \<and>
           VariantString E variant = Inr (Variant p) \<and> Date p = date))"

text \<open>
  The configuration at which \<^verbatim>\<open>parseAsset\<close> of package storage is \<^verbatim>\<open>parseAsset\<close> of package
  gapps, and the package of the one as a package of the other.
\<close>

definition gapps_cfg :: Config where
  "gapps_cfg = [''gapps.prefix'' \<mapsto> gappsPrefix, ''gapps.time_format'' \<mapsto> TimeFormat]"

definition to_gapps :: "Package \<Rightarrow> gapps_Package" where
  "to_gapps p =
     \<lparr>g_Name = Name p, g_Date = Date p, g_OriginURL = OriginURL p, g_MirrorURL = [],
      g_MD5 = MD5 p, g_Size = Size p, g_Platform = Platform p, g_Android = Android p,
      g_Variant = Variant p\<rparr>"

text \<open>
  The path of the file that \<^verbatim>\<open>CreateMirror\<close> uploads: the downloaded file, or the place
  \<^verbatim>\<open>move\<close> has put it at when \<^verbatim>\<open>gapps.local_path\<close> is set. And the upload as the
  specification states it: a response with status 200 makes the call a success.
\<close>

definition upload_path :: "Enums \<Rightarrow> Config \<Rightarrow> Package \<Rightarrow> string \<Rightarrow> string" where
  "upload_path E cfg p filePath =
     (if GetString cfg ''gapps.local_path'' = [] then filePath
      else GetString cfg ''gapps.local_path'' @ Platform_String E (Platform p) @ ''/'' @
           Date p @ ''/'' @ Name p)"

definition ok_is_success ::
  "Enums \<Rightarrow> World \<Rightarrow> Config \<Rightarrow> Package \<Rightarrow> Request \<Rightarrow> Response \<Rightarrow> bool" where
  "ok_is_success E W cfg p req resp =
     (\<not> already_mirrored cfg p \<and> HttpDo req \<in> set (snd (snd (CreateMirror E W cfg p))) \<and>
      http_Do W req = Inr resp \<and> StatusCode resp = 200 \<longrightarrow>
        fst (CreateMirror E W cfg p) = None)"

text \<open>
  The rejection as the specification states it: a name built from tokens one of which
  the lookups do not know, or from a date the format does not accept, gives an error
  and no package.
\<close>

definition rejects_as_stated ::
  "Enums \<Rightarrow> World \<Rightarrow> Config \<Rightarrow> string \<Rightarrow> string \<Rightarrow> string \<Rightarrow> string \<Rightarrow> ReleaseAsset \<Rightarrow> string \<Rightarrow> bool"
  where
  "rejects_as_stated E W cfg platform android variant date asset md5Sum =
     (GetName asset = asset_name (GetString cfg ''gapps.prefix'') platform android variant date \<and>
      (isl (PlatformString E platform) \<or> isl (AndroidString E android) \<or>
       isl (VariantString E variant) \<or>
       time_Parse W (GetString cfg ''gapps.time_format'') date \<noteq> None)
      \<longrightarrow>
      fst (parseAsset E W cfg asset md5Sum) = None \<and>
      snd (parseAsset E W cfg asset md5Sum) \<noteq> None)"

section \<open>Lemmas\<close>

lemma itoa_digit: "n < 10 \<Longrightarrow> itoa n = [digit n]"
  by (simp add: itoa.simps)

lemma move_trace_plain:
  "move E W p origin dest = (r, tr) \<Longrightarrow>
   filter is_download tr = [] \<and> filter is_SetLocalURL tr = [] \<and> filter is_SetRemoteURL tr = []"
  by (auto simp: move_def Let_def is_download_def is_SetLocalURL_def is_SetRemoteURL_def
      split: option.splits)

lemma place_local_frame:
  assumes "place_local E W cfg p fp = (err, fp', p', tr, d)"
  shows "p' = p\<lparr>LocalURL := LocalURL p'\<rparr>"
    and "filter is_download (tr @ d) = []"
    and "filter is_SetRemoteURL (tr @ d) = []"
    and "filter is_SetLocalURL (tr @ d) = [] \<and> LocalURL p' = LocalURL p \<or>
         filter is_SetLocalURL (tr @ d) = [SetLocalURL (LocalURL p')]"
  using assms move_trace_plain [of E W p fp "GetString cfg ''gapps.local_path''"]
  by (auto simp: place_local_def Let_def is_download_def is_SetLocalURL_def is_SetRemoteURL_def
      split: if_splits prod.splits option.splits)

lemma upload_remote_frame:
  assumes "upload_remote W cfg p fp = (err, p', tr, d)"
  shows "p' = p\<lparr>RemoteURL := RemoteURL p'\<rparr>"
    and "filter is_download (tr @ d) = []"
    and "filter is_SetLocalURL (tr @ d) = []"
    and "filter is_SetRemoteURL (tr @ d) = [] \<and> RemoteURL p' = RemoteURL p \<or>
         filter is_SetRemoteURL (tr @ d) = [SetRemoteURL (RemoteURL p')]"
  using assms
  by (auto simp: upload_remote_def Let_def is_download_def is_SetLocalURL_def is_SetRemoteURL_def
      split: if_splits sum.splits option.splits)

lemma CreateMirror_fired:
  "already_mirrored cfg p \<Longrightarrow> CreateMirror E W cfg p = (None, p, [])"
  by (simp add: CreateMirror_def already_mirrored_def)

lemma CreateMirror_not_fired:
  "\<not> already_mirrored cfg p \<Longrightarrow>
   \<exists>tr. snd (snd (CreateMirror E W cfg p)) = DqAddMultiple (OriginURL p) (MD5 p) 20 (Size p) # tr"
  by (auto simp: CreateMirror_def already_mirrored_def Let_def split: sum.splits prod.splits option.splits)


lemma CreateMirror_cases:
  assumes "\<not> already_mirrored cfg p"
  obtains
    (download_failed) err where
      "dq_AddMultiple W (OriginURL p) (MD5 p) 20 (Size p) = Inl err"
      "CreateMirror E W cfg p =
         (Some (Wrap err ''unable to read file body''), p,
          [DqAddMultiple (OriginURL p) (MD5 p) 20 (Size p)])"
  | (local_failed) fp err fp1 p1 tr1 d1 where
      "dq_AddMultiple W (OriginURL p) (MD5 p) 20 (Size p) = Inr fp"
      "place_local E W cfg p fp = (Some err, fp1, p1, tr1, d1)"
      "CreateMirror E W cfg p =
         (Some err, p1,
          [DqAddMultiple (OriginURL p) (MD5 p) 20 (Size p),
           LogDebugf ''Package downloaded to %s'' [fp]] @ tr1 @ d1)"
  | (uploaded) fp fp1 p1 tr1 d1 err p2 tr2 d2 where
      "dq_AddMultiple W (OriginURL p) (MD5 p) 20 (Size p) = Inr fp"
      "place_local E W cfg p fp = (None, fp1, p1, tr1, d1)"
      "upload_remote W cfg p1 fp1 = (err, p2, tr2, d2)"
      "CreateMirror E W cfg p =
         (err, p2,
          [DqAddMultiple (OriginURL p) (MD5 p) 20 (Size p),
           LogDebugf ''Package downloaded to %s'' [fp]] @ tr1 @ tr2 @ d2 @ d1)"
proof (cases "dq_AddMultiple W (OriginURL p) (MD5 p) 20 (Size p)")
  case (Inl err)
  with assms have "CreateMirror E W cfg p =
         (Some (Wrap err ''unable to read file body''), p,
          [DqAddMultiple (OriginURL p) (MD5 p) 20 (Size p)])"
    by (simp add: CreateMirror_def already_mirrored_def)
  with Inl show thesis by (rule download_failed)
next
  case (Inr fp)
  obtain e1 fp1 p1 tr1 d1 where pl: "place_local E W cfg p fp = (e1, fp1, p1, tr1, d1)"
    by (cases "place_local E W cfg p fp") auto
  show thesis
  proof (cases e1)
    case (Some err)
    with assms Inr pl have "CreateMirror E W cfg p =
         (Some err, p1,
          [DqAddMultiple (OriginURL p) (MD5 p) 20 (Size p),
           LogDebugf ''Package downloaded to %s'' [fp]] @ tr1 @ d1)"
      by (simp add: CreateMirror_def already_mirrored_def)
    with Inr pl Some show thesis by (auto intro: local_failed)
  next
    case None
    obtain err p2 tr2 d2 where up: "upload_remote W cfg p1 fp1 = (err, p2, tr2, d2)"
      by (cases "upload_remote W cfg p1 fp1") auto
    with assms Inr pl None have "CreateMirror E W cfg p =
         (err, p2,
          [DqAddMultiple (OriginURL p) (MD5 p) 20 (Size p),
           LogDebugf ''Package downloaded to %s'' [fp]] @ tr1 @ tr2 @ d2 @ d1)"
      by (simp add: CreateMirror_def already_mirrored_def)
    with Inr pl None up show thesis by (auto intro: uploaded)
  qed
qed

lemma GetString_cfg_both [simp]:
  "GetString cfg_both ''gapps.local_url'' = ''https://mirror.example/%s''"
  "GetString cfg_both ''gapps.remote_url'' = ''https://transfer.sh/%s''"
  "GetString cfg_both ''gapps.local_path'' = ''/data/''"
  "GetString cfg_both ''gapps.prefix'' = ''open_gapps''"
  "GetString cfg_both ''gapps.time_format'' = ''20060102''"
  by (simp_all add: GetString_def cfg_both_def)

lemma GetString_empty [simp]: "GetString Map.empty k = []"
  by (simp add: GetString_def)

lemma sample_package_sel [simp]:
  "LocalURL sample_package = []" "RemoteURL sample_package = []"
  "Name sample_package = ''open_gapps-arm64-11.0-pico-20230101.zip''"
  "Date sample_package = ''20230101''" "Platform sample_package = 2"
  by (simp_all add: sample_package_def)

lemma local_only_sel [simp]:
  "LocalURL local_only \<noteq> []" "RemoteURL local_only = []"
  by (simp_all add: local_only_def sample_package_def)

lemma TrimPrefix_append: "TrimPrefix (pre @ s) pre = s"
  by (simp add: TrimPrefix_def HasPrefix_def)

lemma Platform_String_sample [simp]: "Platform_String sample_enums 2 = ''arm64''"
  by (simp add: sample_enums_def)

lemma sample_world_os [simp]:
  "os_MkdirAll sample_world path mode = None"
  "os_Rename sample_world old new = None"
  "os_Chmod sample_world path mode = None"
  "os_Open sample_world path = Inr (File path)"
  "filepath_Clean sample_world path = path"
  "http_NewRequest sample_world method url = None"
  "http_Do sample_world req = Inr sample_response"
  "dq_AddMultiple sample_world url md5 n sz = Inr ''/tmp/download-1''"
  "fmt_Sprintf sample_world = sample_Sprintf"
  by (simp_all add: sample_world_def)

lemma move_no_request: "move E W p origin dest = (r, tr) \<Longrightarrow> filter is_HttpDo tr = []"
  by (auto simp: move_def Let_def is_HttpDo_def split: option.splits)

lemma move_ok_path:
  "move E W p origin dest = ((path, None), tr) \<Longrightarrow>
   path = dest @ Platform_String E (Platform p) @ ''/'' @ Date p @ ''/'' @ Name p"
  by (auto simp: move_def Let_def split: option.splits)

lemma place_local_no_request:
  "place_local E W cfg p fp = (err, fp', p', tr, d) \<Longrightarrow> filter is_HttpDo (tr @ d) = []"
  using move_no_request [of E W p fp "GetString cfg ''gapps.local_path''"]
  by (auto simp: place_local_def Let_def is_HttpDo_def
      split: if_splits prod.splits option.splits)

lemma place_local_url:
  assumes "place_local E W cfg p fp = (None, fp', p', tr, d)"
  shows "GetString cfg ''gapps.local_path'' \<noteq> [] \<and> GetString cfg ''gapps.local_url'' \<noteq> [] \<longrightarrow>
           LocalURL p' = fmt_Sprintf W (GetString cfg ''gapps.local_url'')
             (Platform_String E (Platform p) @ ''/'' @ Date p @ ''/'' @ Name p)"
    and "GetString cfg ''gapps.local_path'' = [] \<or> GetString cfg ''gapps.local_url'' = [] \<longrightarrow>
           p' = p"
    and "Name p' = Name p" and "RemoteURL p' = RemoteURL p"
  using assms move_ok_path [of E W p fp "GetString cfg ''gapps.local_path''"]
  by (auto simp: place_local_def Let_def TrimPrefix_append
      split: if_splits prod.splits option.splits)

lemma upload_remote_cases:
  obtains
    (not_configured)
      "GetString cfg ''gapps.remote_url'' = []"
      "upload_remote W cfg p fp = (None, p, [], [])"
  | (open_failed) e where
      "GetString cfg ''gapps.remote_url'' \<noteq> []"
      "upload_remote W cfg p fp =
         (Some (Wrap e ''unable to create temp file''), p, [OsOpen (filepath_Clean W fp)], [])"
  | (request_failed) f e where
      "GetString cfg ''gapps.remote_url'' \<noteq> []"
      "upload_remote W cfg p fp =
         (Some (Wrap e ''unable to create upload request''), p,
          [OsOpen (filepath_Clean W fp)], [FileClose f])"
  | (do_failed) f e where
      "GetString cfg ''gapps.remote_url'' \<noteq> []"
      "http_Do W (upload_request W cfg p f) = Inl e"
      "upload_remote W cfg p fp =
         (Some (Wrap e ''unable to make upload request''), p,
          [OsOpen (filepath_Clean W fp), HttpDo (upload_request W cfg p f)], [FileClose f])"
  | (bad_status) f resp where
      "GetString cfg ''gapps.remote_url'' \<noteq> []"
      "http_Do W (upload_request W cfg p f) = Inr resp"
      "StatusCode resp \<noteq> 200"
      "upload_remote W cfg p fp =
         (Some (Errorf (''unable to make upload request: '' @ Status resp)), p,
          [OsOpen (filepath_Clean W fp), HttpDo (upload_request W cfg p f)],
          [BodyClose, FileClose f])"
  | (read_failed) f resp e where
      "GetString cfg ''gapps.remote_url'' \<noteq> []"
      "http_Do W (upload_request W cfg p f) = Inr resp"
      "StatusCode resp = 200"
      "ReadBody resp = Inl e"
      "upload_remote W cfg p fp =
         (Some (Wrap e ''unable to read mirror response body''), p,
          [OsOpen (filepath_Clean W fp), HttpDo (upload_request W cfg p f), BodyReadAll],
          [BodyClose, FileClose f])"
  | (stored) f resp body where
      "GetString cfg ''gapps.remote_url'' \<noteq> []"
      "http_Do W (upload_request W cfg p f) = Inr resp"
      "StatusCode resp = 200"
      "ReadBody resp = Inr body"
      "upload_remote W cfg p fp =
         (None, p\<lparr>RemoteURL := body\<rparr>,
          [OsOpen (filepath_Clean W fp), HttpDo (upload_request W cfg p f), BodyReadAll,
           SetRemoteURL body, LogDebugf ''File uploaded, remote URL is %s'' [body]],
          [BodyClose, FileClose f])"
proof (cases "GetString cfg ''gapps.remote_url'' = []")
  case True
  then show thesis by (intro not_configured) (simp_all add: upload_remote_def)
next
  case cfgd: False
  show thesis
  proof (cases "os_Open W (filepath_Clean W fp)")
    case (Inl e)
    with cfgd show thesis by (intro open_failed [of e]) (simp_all add: upload_remote_def)
  next
    case opened: (Inr f)
    have req: "Header_Set
        (Header_Set
           \<lparr>Method = MethodPut,
              URL = fmt_Sprintf W (GetString cfg ''gapps.remote_url'') (Name p), Body = f,
              Header = []\<rparr>
           ''Content-Type'' ''application/zip'')
        ''Max-Days'' ''7'' = upload_request W cfg p f"
      by (simp add: Header_Set_def upload_request_def MethodPut_def)
    show thesis
    proof (cases "http_NewRequest W MethodPut
        (fmt_Sprintf W (GetString cfg ''gapps.remote_url'') (Name p))")
      case (Some e)
      with cfgd opened show thesis
        by (intro request_failed [of e f]) (simp_all add: upload_remote_def)
    next
      case made: None
      show thesis
      proof (cases "http_Do W (upload_request W cfg p f)")
        case (Inl e)
        with cfgd opened made req show thesis
          by (intro do_failed [of f e]) (simp_all add: upload_remote_def)
      next
        case sent: (Inr resp)
        show thesis
        proof (cases "StatusCode resp = 200")
          case False
          with cfgd opened made req sent show thesis
            by (intro bad_status [of f resp]) (simp_all add: upload_remote_def StatusOK_def)
        next
          case ok: True
          show thesis
          proof (cases "ReadBody resp")
            case (Inl e)
            with cfgd opened made req sent ok show thesis
              by (intro read_failed [of f resp e]) (simp_all add: upload_remote_def StatusOK_def)
          next
            case (Inr body)
            with cfgd opened made req sent ok show thesis
              by (intro stored [of f resp body]) (simp_all add: upload_remote_def StatusOK_def)
          qed
        qed
      qed
    qed
  qed
qed


lemma upload_remote_request:
  assumes "upload_remote W cfg p fp = (err, p', tr, d)"
    and "HttpDo req \<in> set (tr @ d)"
  shows "GetString cfg ''gapps.remote_url'' \<noteq> []"
    and "\<exists>f. req = upload_request W cfg p f"
    and "filter is_HttpDo (tr @ d) = [HttpDo req]"
    and "\<forall>resp. http_Do W req = Inr resp \<longrightarrow>
           (StatusCode resp = 200 \<longrightarrow>
              (\<forall>body. ReadBody resp = Inr body \<longrightarrow> err = None \<and> p' = p\<lparr>RemoteURL := body\<rparr>)) \<and>
           (StatusCode resp \<noteq> 200 \<longrightarrow>
              err = Some (Errorf (''unable to make upload request: '' @ Status resp)) \<and> p' = p)"
proof -
  have "GetString cfg ''gapps.remote_url'' \<noteq> [] \<and>
    (\<exists>f. req = upload_request W cfg p f) \<and>
    filter is_HttpDo (tr @ d) = [HttpDo req] \<and>
    (\<forall>resp. http_Do W req = Inr resp \<longrightarrow>
           (StatusCode resp = 200 \<longrightarrow>
              (\<forall>body. ReadBody resp = Inr body \<longrightarrow> err = None \<and> p' = p\<lparr>RemoteURL := body\<rparr>)) \<and>
           (StatusCode resp \<noteq> 200 \<longrightarrow>
              err = Some (Errorf (''unable to make upload request: '' @ Status resp)) \<and> p' = p))"
  proof (cases rule: upload_remote_cases [of cfg W p fp])
    case not_configured
    with assms show ?thesis by simp
  next
    case (open_failed e)
    with assms show ?thesis by auto
  next
    case (request_failed f e)
    with assms show ?thesis by auto
  next
    case (do_failed f e)
    with assms show ?thesis by (auto simp: is_HttpDo_def)
  next
    case (bad_status f resp)
    with assms show ?thesis by (auto simp: is_HttpDo_def)
  next
    case (read_failed f resp e)
    with assms show ?thesis by (auto simp: is_HttpDo_def)
  next
    case (stored f resp body)
    with assms show ?thesis by (auto simp: is_HttpDo_def)
  qed
  then show "GetString cfg ''gapps.remote_url'' \<noteq> []"
    and "\<exists>f. req = upload_request W cfg p f"
    and "filter is_HttpDo (tr @ d) = [HttpDo req]"
    and "\<forall>resp. http_Do W req = Inr resp \<longrightarrow>
           (StatusCode resp = 200 \<longrightarrow>
              (\<forall>body. ReadBody resp = Inr body \<longrightarrow> err = None \<and> p' = p\<lparr>RemoteURL := body\<rparr>)) \<and>
           (StatusCode resp \<noteq> 200 \<longrightarrow>
              err = Some (Errorf (''unable to make upload request: '' @ Status resp)) \<and> p' = p)"
    by blast+
qed

lemma upload_remote_success:
  assumes "upload_remote W cfg p fp = (None, p', tr, d)"
  shows "GetString cfg ''gapps.remote_url'' \<noteq> [] \<longrightarrow>
           (\<exists>req resp. HttpDo req \<in> set tr \<and> http_Do W req = Inr resp \<and>
              StatusCode resp = 200 \<and> ReadBody resp = Inr (RemoteURL p'))"
    and "GetString cfg ''gapps.remote_url'' = [] \<longrightarrow> p' = p"
    and "LocalURL p' = LocalURL p"
proof -
  have "(GetString cfg ''gapps.remote_url'' \<noteq> [] \<longrightarrow>
           (\<exists>req resp. HttpDo req \<in> set tr \<and> http_Do W req = Inr resp \<and>
              StatusCode resp = 200 \<and> ReadBody resp = Inr (RemoteURL p'))) \<and>
        (GetString cfg ''gapps.remote_url'' = [] \<longrightarrow> p' = p) \<and> LocalURL p' = LocalURL p"
  proof (cases rule: upload_remote_cases [of cfg W p fp])
    case (stored f resp body)
    with assms have "HttpDo (upload_request W cfg p f) \<in> set tr"
      and "ReadBody resp = Inr (RemoteURL p')" and "LocalURL p' = LocalURL p"
      by auto
    with stored show ?thesis by blast
  qed (use assms in auto)
  then show "GetString cfg ''gapps.remote_url'' \<noteq> [] \<longrightarrow>
           (\<exists>req resp. HttpDo req \<in> set tr \<and> http_Do W req = Inr resp \<and>
              StatusCode resp = 200 \<and> ReadBody resp = Inr (RemoteURL p'))"
    and "GetString cfg ''gapps.remote_url'' = [] \<longrightarrow> p' = p"
    and "LocalURL p' = LocalURL p"
    by blast+
qed

lemma not_in_filtered: "filter P xs = [] \<Longrightarrow> P x \<Longrightarrow> x \<notin> set xs"
  by (auto simp: filter_empty_conv)

lemma sample_request_sent:
  "HttpDo sample_request \<in>
     set (snd (snd (CreateMirror sample_enums sample_world cfg_both sample_package)))"
  "HttpDo sample_request \<in>
     set (snd (snd (CreateMirror sample_enums created_world cfg_both sample_package)))"
  by code_simp+

lemma Index_occurrence:
  "Index s sep = Some m \<Longrightarrow> s = take m s @ sep @ drop (m + length sep) s"
proof (induction s arbitrary: m)
  case Nil
  then show ?case by (simp split: if_splits)
next
  case (Cons c cs)
  show ?case
  proof (cases "prefix sep (c # cs)")
    case True
    then obtain zs where "c # cs = sep @ zs" by (auto simp: prefix_def)
    moreover from True Cons.prems have "m = 0" by simp
    ultimately show ?thesis by simp
  next
    case False
    with Cons.prems obtain k where k: "Index cs sep = Some k" "m = Suc k" by auto
    from Cons.IH [OF k(1)] k(2) show ?thesis by simp
  qed
qed

lemma Index_first:
  "s = a @ sep @ b \<Longrightarrow> \<exists>m. Index s sep = Some m \<and> m \<le> length a"
proof (induction a arbitrary: s)
  case Nil
  show ?case
  proof (cases s)
    case Nil
    with \<open>s = [] @ sep @ b\<close> show ?thesis by simp
  next
    case (Cons c cs)
    from \<open>s = [] @ sep @ b\<close> have "prefix sep s" by simp
    with Cons show ?thesis by simp
  qed
next
  case (Cons x a)
  then obtain s' where s': "s = x # s'" "s' = a @ sep @ b" by auto
  from Cons.IH [OF s'(2)] obtain m where "Index s' sep = Some m" "m \<le> length a" by blast
  with s'(1) show ?case by auto
qed

lemma Index_None: "Index s sep = None \<Longrightarrow> s \<noteq> a @ sep @ b"
  using Index_first [of s a sep b] by auto

lemma Index_absent: "c \<notin> set xs \<Longrightarrow> Index xs [c] = None"
  by (induction xs) auto

lemma Index_at: "c \<notin> set xs \<Longrightarrow> Index (xs @ c # rest) [c] = Some (length xs)"
  by (induction xs) auto

lemma Split_absent: "c \<notin> set xs \<Longrightarrow> Split xs [c] = [xs]"
  by (subst Split.simps) (simp add: Index_absent)

lemma Split_at: "c \<notin> set xs \<Longrightarrow> Split (xs @ c # rest) [c] = xs # Split rest [c]"
  by (subst Split.simps) (simp add: Index_at)

lemma Split_nonempty: "sep \<noteq> [] \<Longrightarrow> Split s sep \<noteq> []"
  by (subst Split.simps) (simp split: option.splits)

lemma Split_head:
  assumes "sep \<noteq> []"
  shows "\<exists>md5 rest. Split s sep = md5 # rest \<and>
           ((\<forall>a b. s \<noteq> a @ sep @ b) \<longrightarrow> md5 = s) \<and>
           (\<forall>a b. s = a @ sep @ b \<longrightarrow> (\<exists>r. s = md5 @ sep @ r) \<and> length md5 \<le> length a)"
proof (cases "Index s sep")
  case None
  with assms have "Split s sep = [s]" by (subst Split.simps) simp
  with Index_None [OF None] show ?thesis by auto
next
  case (Some m)
  with assms have sp: "Split s sep = take m s # Split (drop (m + length sep) s) sep"
    by (subst Split.simps) simp
  from Index_occurrence [OF Some] have occ: "s = take m s @ sep @ drop (m + length sep) s" .
  from Index_le [OF Some] have len: "length (take m s) = m" by simp
  have "length (take m s) \<le> length a" if "s = a @ sep @ b" for a b
    using Index_first [OF that] Some len by auto
  with sp occ show ?thesis by blast
qed


lemma Split_first_field:
  "\<exists>md5 rest. Split content ''  '' = md5 # rest \<and> up_to_double_space content md5"
  unfolding up_to_double_space_def
  using Split_head [of "''  ''" content] by simp

lemma bare_sidecar_no_double_space: "bare_sidecar \<noteq> a @ ''  '' @ b"
proof (rule Index_None)
  show "Index bare_sidecar ''  '' = None" by code_simp
qed

lemma ParsePackageParts_take:
  "length toks = 4 \<Longrightarrow>
   ParsePackageParts E (take 3 toks) =
     (case PlatformString E (toks ! 0) of
        Inl err \<Rightarrow> (0, 0, 0, Some (Wrap err ''parsing error''))
      | Inr platform \<Rightarrow>
          (case AndroidString E (toks ! 1) of
             Inl err \<Rightarrow> (0, 0, 0, Some (Wrap err ''parsing error''))
           | Inr android \<Rightarrow>
               (case VariantString E (toks ! 2) of
                  Inl err \<Rightarrow> (0, 0, 0, Some (Wrap err ''parsing error''))
                | Inr variant \<Rightarrow> (platform, android, variant, None))))"
  by (simp add: ParsePackageParts_def parsingErrText_def numeral_3_eq_3 split: sum.splits)

lemma parseAsset_unfold:
  "parseAsset E W cfg asset md5Sum =
     (if length (name_segments cfg (GetName asset)) \<noteq> 3 then
        (None, Some (Errorf (''incorrect package name: '' @ GetName asset)))
      else if name_segments cfg (GetName asset) ! 2 \<noteq> ''zip'' then
        (None, Some (Errorf (''incorrect package extension: '' @
           name_segments cfg (GetName asset) ! 2)))
      else if length (name_tokens cfg (GetName asset)) \<noteq> 4 then
        (None, Some (Errorf (''incorrect package name: '' @ GetName asset)))
      else
        (case PlatformString E (name_tokens cfg (GetName asset) ! 0) of
           Inl err \<Rightarrow> (None, Some (Wrap err ''parsing error''))
         | Inr platform \<Rightarrow>
             (case AndroidString E (name_tokens cfg (GetName asset) ! 1) of
                Inl err \<Rightarrow> (None, Some (Wrap err ''parsing error''))
              | Inr android \<Rightarrow>
                  (case VariantString E (name_tokens cfg (GetName asset) ! 2) of
                     Inl err \<Rightarrow> (None, Some (Wrap err ''parsing error''))
                   | Inr variant \<Rightarrow>
                       (case time_Parse W (GetString cfg ''gapps.time_format'')
                               (name_tokens cfg (GetName asset) ! 3) of
                          Some err \<Rightarrow> (None, Some (Wrap err ''unable to parse time''))
                        | None \<Rightarrow>
                            (Some \<lparr>Name = GetName asset,
                                   Date = name_tokens cfg (GetName asset) ! 3,
                                   OriginURL = GetBrowserDownloadURL asset,
                                   LocalURL = [], RemoteURL = [], MD5 = md5Sum,
                                   Size = GetSize asset, Platform = platform,
                                   Android = android, Variant = variant\<rparr>,
                             None))))))"
  by (simp add: parseAsset_def Let_def name_segments_def name_tokens_def gappsSeparator_def
      ParsePackageParts_take split: sum.splits option.splits)

lemma name_segments_dotted:
  assumes "CHR ''.'' \<notin> set (platform @ a @ b @ variant @ date)"
    and "name = asset_name (GetString cfg ''gapps.prefix'') platform (a @ ''.'' @ b) variant date"
  shows "name_segments cfg name =
           [platform @ ''-'' @ a, b @ ''-'' @ variant @ ''-'' @ date, ''zip'']"
proof -
  have n: "name = (GetString cfg ''gapps.prefix'' @ ''-'') @
      (platform @ ''-'' @ a) @ CHR ''.'' #
        ((b @ ''-'' @ variant @ ''-'' @ date) @ CHR ''.'' # ''zip'')"
    using assms(2) by (simp add: asset_name_def)
  have 1: "CHR ''.'' \<notin> set (platform @ ''-'' @ a)"
    and 2: "CHR ''.'' \<notin> set (b @ ''-'' @ variant @ ''-'' @ date)"
    and 3: "CHR ''.'' \<notin> set ''zip''"
    using assms(1) by auto
  show ?thesis
    unfolding name_segments_def n TrimPrefix_append
    by (simp only: Split_at [OF 1] Split_at [OF 2] Split_absent [OF 3])
qed

lemma name_segments_plain:
  assumes "CHR ''.'' \<notin> set (platform @ android @ variant @ date)"
    and "name = asset_name (GetString cfg ''gapps.prefix'') platform android variant date"
  shows "name_segments cfg name =
           [platform @ ''-'' @ android @ ''-'' @ variant @ ''-'' @ date, ''zip'']"
proof -
  have n: "name = (GetString cfg ''gapps.prefix'' @ ''-'') @
      (platform @ ''-'' @ android @ ''-'' @ variant @ ''-'' @ date) @ CHR ''.'' # ''zip''"
    using assms(2) by (simp add: asset_name_def)
  have 1: "CHR ''.'' \<notin> set (platform @ ''-'' @ android @ ''-'' @ variant @ ''-'' @ date)"
    and 3: "CHR ''.'' \<notin> set ''zip''"
    using assms(1) by auto
  show ?thesis
    unfolding name_segments_def n TrimPrefix_append
    by (simp only: Split_at [OF 1] Split_absent [OF 3])
qed

lemma Split_four:
  assumes "c \<notin> set (t0 @ t1 @ t2 @ t3)"
  shows "Split (t0 @ c # t1 @ c # t2 @ c # t3) [c] = [t0, t1, t2, t3]"
proof -
  from assms have 0: "c \<notin> set t0" and 1: "c \<notin> set t1" and 2: "c \<notin> set t2"
    and 3: "c \<notin> set t3" by auto
  show ?thesis
    by (simp only: Split_at [OF 0] Split_at [OF 1] Split_at [OF 2] Split_absent [OF 3])
qed

lemma name_tokens_dotted:
  assumes "CHR ''.'' \<notin> set (platform @ a @ b @ variant @ date)"
    and "CHR ''-'' \<notin> set (platform @ a @ b @ variant @ date)"
    and "name = asset_name (GetString cfg ''gapps.prefix'') platform (a @ ''.'' @ b) variant date"
  shows "name_tokens cfg name = [platform, a @ b, variant, date]"
proof -
  from assms(2) have "CHR ''-'' \<notin> set (platform @ (a @ b) @ variant @ date)" by simp
  from Split_four [OF this] show ?thesis
    by (simp add: name_tokens_def name_segments_dotted [OF assms(1,3)])
qed

lemma sample_lookups [simp]:
  "PlatformString sample_enums ''arm64'' = Inr 2"
  "AndroidString sample_enums ''110'' = Inr 9"
  "VariantString sample_enums ''pico'' = Inr 1"
  "PlatformString dotted_enums ''arm64'' = Inr 2"
  "AndroidString dotted_enums ''11.0'' = Inr 9"
  "VariantString dotted_enums ''pico'' = Inr 1"
  "time_Parse sample_world ''20060102'' ''20230101'' = None"
  by (simp_all add: sample_enums_def dotted_enums_def sample_world_def)

lemma GetName_sample_asset [simp]: "GetName (sample_asset name) = name"
  by (simp add: sample_asset_def)

text \<open>
  The earlier versions in package gapps: \<^verbatim>\<open>parseAsset\<close> is \<^verbatim>\<open>parseAsset\<close> of package storage
  at the configuration \<open>gapps_cfg\<close>, so what is proved of the one holds of the other; and
  the upload of \<^verbatim>\<open>CreateMirror\<close> is the same \<^verbatim>\<open>PUT\<close>, to \<^verbatim>\<open>https://transfer.sh/%s\<close>.
\<close>

lemma gapps_parseAsset_eq:
  "gapps_parseAsset E W asset md5Sum =
     (map_option to_gapps (fst (parseAsset E W gapps_cfg asset md5Sum)),
      snd (parseAsset E W gapps_cfg asset md5Sum))"
  by (simp add: gapps_parseAsset_def parseAsset_def gapps_cfg_def GetString_def Let_def
      to_gapps_def split: prod.splits option.splits)

lemma gapps_CreateMirror_upload:
  "g_MirrorURL p = [] \<and>
   HttpDo req \<in> set (snd (snd (gapps_CreateMirror Download CreateFile W p))) \<longrightarrow>
     Method req = ''PUT'' \<and>
     URL req = fmt_Sprintf W ''https://transfer.sh/%s'' (g_Name p) \<and>
     map_of (Header req) ''Content-Type'' = Some [''application/zip''] \<and>
     map_of (Header req) ''Max-Days'' = Some [''7''] \<and>
     (\<forall>resp. http_Do W req = Inr resp \<longrightarrow>
        (StatusCode resp = 200 \<longrightarrow>
           (\<forall>body. ReadBody resp = Inr body \<longrightarrow>
              gapps_CreateMirror Download CreateFile W p =
                (None, p\<lparr>g_MirrorURL := body\<rparr>,
                 snd (snd (gapps_CreateMirror Download CreateFile W p))))) \<and>
        (StatusCode resp \<noteq> 200 \<longrightarrow>
           gapps_CreateMirror Download CreateFile W p =
             (Some (Errorf (''unable to make upload request: '' @ Status resp)), p,
              snd (snd (gapps_CreateMirror Download CreateFile W p)))))"
  by (auto simp: gapps_CreateMirror_def Let_def Header_Set_def MethodPut_def StatusOK_def
      uploadURL_def split: sum.splits option.splits if_splits)

lemma upload_remote_unread:
  assumes "upload_remote W cfg p fp = (err, p', tr, d)"
    and "HttpDo req \<in> set (tr @ d)"
    and "http_Do W req = Inr resp" and "StatusCode resp = 200" and "ReadBody resp = Inl e"
  shows "err = Some (Wrap e ''unable to read mirror response body'') \<and> p' = p"
proof (cases rule: upload_remote_cases [of cfg W p fp])
  case not_configured
  with assms show ?thesis by simp
next
  case (open_failed e)
  with assms show ?thesis by auto
next
  case (request_failed f e)
  with assms show ?thesis by auto
next
  case (do_failed f e)
  with assms show ?thesis by auto
next
  case (bad_status f resp)
  with assms show ?thesis by auto
next
  case (read_failed f resp e)
  with assms show ?thesis by auto
next
  case (stored f resp body)
  with assms show ?thesis by auto
qed

lemma upload_remote_sends:
  assumes "GetString cfg ''gapps.remote_url'' \<noteq> []"
    and "os_Open W (filepath_Clean W fp) = Inr f"
    and "http_NewRequest W ''PUT''
           (fmt_Sprintf W (GetString cfg ''gapps.remote_url'') (Name p)) = None"
  shows "filter is_HttpDo (fst (snd (snd (upload_remote W cfg p fp))) @
           snd (snd (snd (upload_remote W cfg p fp)))) = [HttpDo (upload_request W cfg p f)]"
  using assms
  by (simp add: upload_remote_def Let_def is_HttpDo_def Header_Set_def MethodPut_def
      upload_request_def split: sum.splits)

lemma place_local_ok:
  assumes "GetString cfg ''gapps.local_path'' \<noteq> [] \<longrightarrow>
             snd (fst (move E W p fp (GetString cfg ''gapps.local_path''))) = None"
  shows "\<exists>p1 tr1 d1. place_local E W cfg p fp = (None, upload_path E cfg p fp, p1, tr1, d1)"
proof (cases "GetString cfg ''gapps.local_path'' = []")
  case True
  then show ?thesis by (simp add: place_local_def upload_path_def)
next
  case False
  obtain path e tr where m: "move E W p fp (GetString cfg ''gapps.local_path'') = ((path, e), tr)"
    by (metis surj_pair)
  with assms False have e: "e = None" by simp
  from move_ok_path [OF m [unfolded e]] False m e show ?thesis
    by (simp add: place_local_def upload_path_def Let_def)
qed


lemma in_filtered: "filter P xs = [x] \<Longrightarrow> x \<in> set xs"
proof -
  assume "filter P xs = [x]"
  then have "x \<in> set (filter P xs)" by simp
  then show ?thesis by simp
qed

lemma upload_path_sample:
  "upload_path sample_enums cfg_both sample_package ''/tmp/download-1'' =
     ''/data/arm64/20230101/open_gapps-arm64-11.0-pico-20230101.zip''"
  by (simp add: upload_path_def)

lemma move_sample_ok:
  "snd (fst (move sample_enums W sample_package fp ''/data/'')) = None"
  if "W = sample_world \<or> W = created_world"
  using that by (auto simp: move_def Let_def created_world_def)

section \<open>The claims\<close>

text \<open>
  Claim C10. \<^verbatim>\<open>ParsePackageParts\<close> returns an error exactly when the number of arguments
  is not 3 or one of the three lookups (platform on \<^verbatim>\<open>args[0]\<close>, android on \<^verbatim>\<open>args[1]\<close>,
  variant on \<^verbatim>\<open>args[2]\<close>) fails. When the number of arguments is not 3, the message of
  the error is "bad number of arguments: want 4, got n", with n the number of arguments
  in decimal: the message says 4 where the accepted number is 3.
\<close>

theorem ParsePackageParts_error_iff:
  "(parts_err E args \<noteq> None) =
     (length args \<noteq> 3 \<or> isl (PlatformString E (args ! 0)) \<or>
      isl (AndroidString E (args ! 1)) \<or> isl (VariantString E (args ! 2)))
   \<and> (length args \<noteq> 3 \<longrightarrow>
        (\<exists>e. parts_err E args = Some e \<and>
             Error e = ''bad number of arguments: want 4, got '' @ itoa (length args)))"
  by (auto simp: parts_err_def ParsePackageParts_def split: sum.splits)

theorem ParsePackageParts_error_iff_witness:
  "length [''arm64'', ''110''] \<noteq> (3::nat) \<and>
   (\<exists>e. parts_err sample_enums [''arm64'', ''110''] = Some e \<and>
        Error e = ''bad number of arguments: want 4, got 2'')"
proof -
  have h: "length [''arm64'', ''110''] \<noteq> (3::nat)" by simp
  have "itoa (length [''arm64'', ''110'']) = ''2''" by (simp add: itoa_digit digit_def)
  with h ParsePackageParts_error_iff [of sample_enums "[''arm64'', ''110'']"]
  show ?thesis by simp
qed

text \<open>
  Claim C1, as the code has it. \<^verbatim>\<open>CreateMirror\<close> returns success at once, with the package
  as it was and no download, move or upload (no effect at all), exactly when some
  configured tier already has its URL: \<^verbatim>\<open>gapps.local_url\<close> is set and \<^verbatim>\<open>LocalURL\<close> is
  non-empty, or \<^verbatim>\<open>gapps.remote_url\<close> is set and \<^verbatim>\<open>RemoteURL\<close> is non-empty. In every other
  case, also when no tier is configured, the first effect is the download.
\<close>

theorem CreateMirror_guard:
  "returns_at_once E W cfg p = already_mirrored cfg p \<and>
   (\<not> already_mirrored cfg p \<longrightarrow>
      (\<exists>tr. snd (snd (CreateMirror E W cfg p)) =
            DqAddMultiple (OriginURL p) (MD5 p) 20 (Size p) # tr))"
proof (cases "already_mirrored cfg p")
  case True
  then show ?thesis by (simp add: returns_at_once_def CreateMirror_fired)
next
  case False
  then have "\<exists>tr. snd (snd (CreateMirror E W cfg p)) =
            DqAddMultiple (OriginURL p) (MD5 p) 20 (Size p) # tr"
    by (rule CreateMirror_cases [of cfg p W E]) auto
  moreover from this have "\<not> returns_at_once E W cfg p"
    by (auto simp: returns_at_once_def)
  ultimately show ?thesis using False by simp
qed

text \<open>
  As the claim states it, the guard would fire exactly when no tier is configured or
  every configured tier has its URL. With both tiers configured and only \<^verbatim>\<open>LocalURL\<close> set
  the code returns at once, and with no tier configured it downloads.
\<close>

theorem CreateMirror_guard_counterexample:
  "returns_at_once sample_enums sample_world cfg_both local_only \<and>
   \<not> spec_guard cfg_both local_only \<and>
   \<not> guard_as_specified sample_enums sample_world cfg_both local_only \<and>
   spec_guard Map.empty sample_package \<and>
   \<not> returns_at_once sample_enums sample_world Map.empty sample_package \<and>
   \<not> guard_as_specified sample_enums sample_world Map.empty sample_package"
proof -
  have a: "returns_at_once sample_enums sample_world cfg_both local_only"
    by (simp add: returns_at_once_def CreateMirror_fired already_mirrored_def)
  have b: "\<not> spec_guard cfg_both local_only"
    by (simp add: spec_guard_def)
  have c: "spec_guard Map.empty sample_package"
    by (simp add: spec_guard_def)
  have "\<not> already_mirrored Map.empty sample_package"
    by (simp add: already_mirrored_def)
  from CreateMirror_not_fired [OF this, of sample_enums sample_world]
  have d: "\<not> returns_at_once sample_enums sample_world Map.empty sample_package"
    by (auto simp: returns_at_once_def)
  from a b c d show ?thesis by (simp add: guard_as_specified_def)
qed

theorem CreateMirror_guard_witness:
  "already_mirrored cfg_both local_only \<and>
   returns_at_once sample_enums sample_world cfg_both local_only \<and>
   \<not> already_mirrored Map.empty sample_package \<and>
   \<not> returns_at_once sample_enums sample_world Map.empty sample_package \<and>
   (\<exists>tr. snd (snd (CreateMirror sample_enums sample_world Map.empty sample_package)) =
      DqAddMultiple (OriginURL sample_package) (MD5 sample_package) 20 (Size sample_package) # tr)"
proof -
  have a: "already_mirrored cfg_both local_only"
    by (simp add: already_mirrored_def)
  have b: "\<not> already_mirrored Map.empty sample_package"
    by (simp add: already_mirrored_def)
  from a b CreateMirror_guard [of sample_enums sample_world cfg_both local_only]
    CreateMirror_guard [of sample_enums sample_world Map.empty sample_package]
  show ?thesis by simp
qed

text \<open>
  Claim C7. When the guard does not fire, \<^verbatim>\<open>CreateMirror\<close> calls the download queue once,
  first of all its effects, as \<^verbatim>\<open>AddMultiple(p.OriginURL, p.MD5, 20, p.Size)\<close>; and when
  that call returns an error, \<^verbatim>\<open>CreateMirror\<close> returns it wrapped with the context
  "unable to read file body", the package is as it was, and nothing else has happened.
\<close>

theorem CreateMirror_download:
  "\<not> already_mirrored cfg p \<longrightarrow>
     filter is_download (snd (snd (CreateMirror E W cfg p))) =
       [DqAddMultiple (OriginURL p) (MD5 p) 20 (Size p)] \<and>
     (\<exists>tr. snd (snd (CreateMirror E W cfg p)) =
            DqAddMultiple (OriginURL p) (MD5 p) 20 (Size p) # tr) \<and>
     (\<forall>err. dq_AddMultiple W (OriginURL p) (MD5 p) 20 (Size p) = Inl err \<longrightarrow>
        CreateMirror E W cfg p =
          (Some (Wrap err ''unable to read file body''), p,
           [DqAddMultiple (OriginURL p) (MD5 p) 20 (Size p)]))"
proof
  assume g: "\<not> already_mirrored cfg p"
  from g show "filter is_download (snd (snd (CreateMirror E W cfg p))) =
       [DqAddMultiple (OriginURL p) (MD5 p) 20 (Size p)] \<and>
     (\<exists>tr. snd (snd (CreateMirror E W cfg p)) =
            DqAddMultiple (OriginURL p) (MD5 p) 20 (Size p) # tr) \<and>
     (\<forall>err. dq_AddMultiple W (OriginURL p) (MD5 p) 20 (Size p) = Inl err \<longrightarrow>
        CreateMirror E W cfg p =
          (Some (Wrap err ''unable to read file body''), p,
           [DqAddMultiple (OriginURL p) (MD5 p) 20 (Size p)]))"
  proof (cases rule: CreateMirror_cases [of cfg p W E])
    case (download_failed err)
    then show ?thesis by (simp add: is_download_def)
  next
    case (local_failed fp err fp1 p1 tr1 d1)
    with place_local_frame(2) [OF local_failed(2)] show ?thesis
      by (simp add: is_download_def)
  next
    case (uploaded fp fp1 p1 tr1 d1 err p2 tr2 d2)
    with place_local_frame(2) [OF uploaded(2)] upload_remote_frame(2) [OF uploaded(3)]
    show ?thesis by (simp add: is_download_def)
  qed
qed

theorem CreateMirror_download_witness:
  "\<not> already_mirrored cfg_both sample_package \<and>
   CreateMirror sample_enums failing_download cfg_both sample_package =
     (Some (Wrap (Errorf ''retries exceeded'') ''unable to read file body''), sample_package,
      [DqAddMultiple (OriginURL sample_package) (MD5 sample_package) 20 (Size sample_package)]) \<and>
   filter is_download (snd (snd (CreateMirror sample_enums sample_world cfg_both sample_package))) =
     [DqAddMultiple (OriginURL sample_package) (MD5 sample_package) 20 (Size sample_package)]"
proof -
  have a: "\<not> already_mirrored cfg_both sample_package"
    by (simp add: already_mirrored_def)
  have b: "dq_AddMultiple failing_download (OriginURL sample_package) (MD5 sample_package) 20
      (Size sample_package) = Inl (Errorf ''retries exceeded'')"
    by (simp add: failing_download_def)
  from a b CreateMirror_download [of cfg_both sample_package sample_enums failing_download]
    CreateMirror_download [of cfg_both sample_package sample_enums sample_world]
  show ?thesis by simp
qed

text \<open>
  Claim C8. Whatever \<^verbatim>\<open>CreateMirror\<close> returns, the fields \<^verbatim>\<open>Name\<close>, \<^verbatim>\<open>Date\<close>, \<^verbatim>\<open>OriginURL\<close>,
  \<^verbatim>\<open>MD5\<close>, \<^verbatim>\<open>Size\<close>, \<^verbatim>\<open>Platform\<close>, \<^verbatim>\<open>Android\<close> and \<^verbatim>\<open>Variant\<close> of the package are as they were.
  \<^verbatim>\<open>LocalURL\<close> is either never stored to and as it was, or stored to once, with its final
  value; the same holds of \<^verbatim>\<open>RemoteURL\<close>.
\<close>

theorem CreateMirror_frame:
  "(let p' = fst (snd (CreateMirror E W cfg p)); tr = snd (snd (CreateMirror E W cfg p)) in
    Name p' = Name p \<and> Date p' = Date p \<and> OriginURL p' = OriginURL p \<and> MD5 p' = MD5 p \<and>
    Size p' = Size p \<and> Platform p' = Platform p \<and> Android p' = Android p \<and>
    Variant p' = Variant p \<and>
    (filter is_SetLocalURL tr = [] \<and> LocalURL p' = LocalURL p \<or>
     filter is_SetLocalURL tr = [SetLocalURL (LocalURL p')]) \<and>
    (filter is_SetRemoteURL tr = [] \<and> RemoteURL p' = RemoteURL p \<or>
     filter is_SetRemoteURL tr = [SetRemoteURL (RemoteURL p')]))"
proof (cases "already_mirrored cfg p")
  case True
  then show ?thesis by (simp add: CreateMirror_fired)
next
  case False
  then show ?thesis
  proof (cases rule: CreateMirror_cases [of cfg p W E])
    case (download_failed err)
    then show ?thesis by (simp add: is_SetLocalURL_def is_SetRemoteURL_def)
  next
    case (local_failed fp err fp1 p1 tr1 d1)
    note f = place_local_frame [OF local_failed(2)]
    have "Name p1 = Name p \<and> Date p1 = Date p \<and> OriginURL p1 = OriginURL p \<and>
      MD5 p1 = MD5 p \<and> Size p1 = Size p \<and> Platform p1 = Platform p \<and>
      Android p1 = Android p \<and> Variant p1 = Variant p \<and> RemoteURL p1 = RemoteURL p"
      by (subst f(1), simp)+
    with local_failed f(3,4) show ?thesis
      by (auto simp: is_SetLocalURL_def is_SetRemoteURL_def)
  next
    case (uploaded fp fp1 p1 tr1 d1 err p2 tr2 d2)
    note f = place_local_frame [OF uploaded(2)]
    note u = upload_remote_frame [OF uploaded(3)]
    have "Name p1 = Name p \<and> Date p1 = Date p \<and> OriginURL p1 = OriginURL p \<and>
      MD5 p1 = MD5 p \<and> Size p1 = Size p \<and> Platform p1 = Platform p \<and>
      Android p1 = Android p \<and> Variant p1 = Variant p \<and> RemoteURL p1 = RemoteURL p"
      by (subst f(1), simp)+
    moreover have "Name p2 = Name p1 \<and> Date p2 = Date p1 \<and> OriginURL p2 = OriginURL p1 \<and>
      MD5 p2 = MD5 p1 \<and> Size p2 = Size p1 \<and> Platform p2 = Platform p1 \<and>
      Android p2 = Android p1 \<and> Variant p2 = Variant p1 \<and> LocalURL p2 = LocalURL p1"
      by (subst u(1), simp)+
    ultimately show ?thesis using uploaded f(3,4) u(3,4)
      by (auto simp: is_SetLocalURL_def is_SetRemoteURL_def)
  qed
qed

text \<open>
  Claim C2, as the code has it. When \<^verbatim>\<open>CreateMirror\<close> returns nil and the guard did not
  fire: with \<^verbatim>\<open>gapps.local_path\<close> and \<^verbatim>\<open>gapps.local_url\<close> both set, \<^verbatim>\<open>LocalURL\<close> is the
  template applied to platform, slash, date, slash, name; with one of them unset
  \<^verbatim>\<open>LocalURL\<close> is as it was, which is empty when \<^verbatim>\<open>gapps.local_url\<close> is set and
  \<^verbatim>\<open>gapps.local_path\<close> is not; with \<^verbatim>\<open>gapps.remote_url\<close> set, \<^verbatim>\<open>RemoteURL\<close> is the body of
  the response with status 200 to the request sent, whatever that body is; with
  \<^verbatim>\<open>gapps.remote_url\<close> unset \<^verbatim>\<open>RemoteURL\<close> is as it was.
\<close>

theorem CreateMirror_success_urls:
  "\<not> already_mirrored cfg p \<and> fst (CreateMirror E W cfg p) = None \<longrightarrow>
     (GetString cfg ''gapps.local_path'' \<noteq> [] \<and> GetString cfg ''gapps.local_url'' \<noteq> [] \<longrightarrow>
        LocalURL (fst (snd (CreateMirror E W cfg p))) =
          fmt_Sprintf W (GetString cfg ''gapps.local_url'')
            (Platform_String E (Platform p) @ ''/'' @ Date p @ ''/'' @ Name p)) \<and>
     (GetString cfg ''gapps.local_path'' = [] \<or> GetString cfg ''gapps.local_url'' = [] \<longrightarrow>
        LocalURL (fst (snd (CreateMirror E W cfg p))) = LocalURL p) \<and>
     (GetString cfg ''gapps.local_path'' = [] \<and> GetString cfg ''gapps.local_url'' \<noteq> [] \<longrightarrow>
        LocalURL (fst (snd (CreateMirror E W cfg p))) = []) \<and>
     (GetString cfg ''gapps.remote_url'' \<noteq> [] \<longrightarrow>
        (\<exists>req resp. HttpDo req \<in> set (snd (snd (CreateMirror E W cfg p))) \<and>
           http_Do W req = Inr resp \<and> StatusCode resp = 200 \<and>
           ReadBody resp = Inr (RemoteURL (fst (snd (CreateMirror E W cfg p)))))) \<and>
     (GetString cfg ''gapps.remote_url'' = [] \<longrightarrow>
        RemoteURL (fst (snd (CreateMirror E W cfg p))) = RemoteURL p)"
proof (intro impI, elim conjE)
  assume g: "\<not> already_mirrored cfg p" and ok: "fst (CreateMirror E W cfg p) = None"
  from g have empty: "GetString cfg ''gapps.local_url'' \<noteq> [] \<longrightarrow> LocalURL p = []"
    by (auto simp: already_mirrored_def)
  from g show
    "(GetString cfg ''gapps.local_path'' \<noteq> [] \<and> GetString cfg ''gapps.local_url'' \<noteq> [] \<longrightarrow>
        LocalURL (fst (snd (CreateMirror E W cfg p))) =
          fmt_Sprintf W (GetString cfg ''gapps.local_url'')
            (Platform_String E (Platform p) @ ''/'' @ Date p @ ''/'' @ Name p)) \<and>
     (GetString cfg ''gapps.local_path'' = [] \<or> GetString cfg ''gapps.local_url'' = [] \<longrightarrow>
        LocalURL (fst (snd (CreateMirror E W cfg p))) = LocalURL p) \<and>
     (GetString cfg ''gapps.local_path'' = [] \<and> GetString cfg ''gapps.local_url'' \<noteq> [] \<longrightarrow>
        LocalURL (fst (snd (CreateMirror E W cfg p))) = []) \<and>
     (GetString cfg ''gapps.remote_url'' \<noteq> [] \<longrightarrow>
        (\<exists>req resp. HttpDo req \<in> set (snd (snd (CreateMirror E W cfg p))) \<and>
           http_Do W req = Inr resp \<and> StatusCode resp = 200 \<and>
           ReadBody resp = Inr (RemoteURL (fst (snd (CreateMirror E W cfg p)))))) \<and>
     (GetString cfg ''gapps.remote_url'' = [] \<longrightarrow>
        RemoteURL (fst (snd (CreateMirror E W cfg p))) = RemoteURL p)"
  proof (cases rule: CreateMirror_cases [of cfg p W E])
    case (download_failed err)
    with ok show ?thesis by simp
  next
    case (local_failed fp err fp1 p1 tr1 d1)
    with ok show ?thesis by simp
  next
    case (uploaded fp fp1 p1 tr1 d1 err p2 tr2 d2)
    with ok have none: "err = None" by simp
    note l = place_local_url [OF uploaded(2)]
    note u = upload_remote_success [OF uploaded(3) [unfolded none]]
    have res: "fst (snd (CreateMirror E W cfg p)) = p2"
      "set tr2 \<subseteq> set (snd (snd (CreateMirror E W cfg p)))"
      using uploaded(4) by auto
    from u(1) res(2) have remote: "GetString cfg ''gapps.remote_url'' \<noteq> [] \<longrightarrow>
        (\<exists>req resp. HttpDo req \<in> set (snd (snd (CreateMirror E W cfg p))) \<and>
           http_Do W req = Inr resp \<and> StatusCode resp = 200 \<and>
           ReadBody resp = Inr (RemoteURL p2))"
      by blast
    from l u(2,3) empty remote show ?thesis
      unfolding res(1) by auto
  qed
qed

text \<open>
  As the claim states it, every configured tier would have a non-empty URL after a
  successful run. With \<^verbatim>\<open>gapps.local_url\<close> set and \<^verbatim>\<open>gapps.local_path\<close> not set the run
  succeeds and \<^verbatim>\<open>LocalURL\<close> is empty; with \<^verbatim>\<open>gapps.remote_url\<close> set and a response of
  status 200 with an empty body the run succeeds and \<^verbatim>\<open>RemoteURL\<close> is empty.
\<close>

theorem CreateMirror_success_urls_counterexample:
  "\<not> already_mirrored cfg_url_only sample_package \<and>
   fst (CreateMirror sample_enums sample_world cfg_url_only sample_package) = None \<and>
   GetString cfg_url_only ''gapps.local_url'' = ''https://mirror.example/%s'' \<and>
   LocalURL (fst (snd (CreateMirror sample_enums sample_world cfg_url_only sample_package))) = [] \<and>
   \<not> tiers_populated cfg_url_only
       (fst (snd (CreateMirror sample_enums sample_world cfg_url_only sample_package))) \<and>
   \<not> already_mirrored cfg_remote_only sample_package \<and>
   fst (CreateMirror sample_enums empty_body_world cfg_remote_only sample_package) = None \<and>
   GetString cfg_remote_only ''gapps.remote_url'' = ''https://transfer.sh/%s'' \<and>
   RemoteURL (fst (snd (CreateMirror sample_enums empty_body_world cfg_remote_only sample_package))) = [] \<and>
   \<not> tiers_populated cfg_remote_only
       (fst (snd (CreateMirror sample_enums empty_body_world cfg_remote_only sample_package)))"
  by code_simp

theorem CreateMirror_success_urls_witness:
  "\<not> already_mirrored cfg_both sample_package \<and>
   fst (CreateMirror sample_enums sample_world cfg_both sample_package) = None \<and>
   LocalURL (fst (snd (CreateMirror sample_enums sample_world cfg_both sample_package))) =
     ''https://mirror.example/arm64/20230101/open_gapps-arm64-11.0-pico-20230101.zip'' \<and>
   \<not> already_mirrored cfg_url_only sample_package \<and>
   fst (CreateMirror sample_enums sample_world cfg_url_only sample_package) = None \<and>
   LocalURL (fst (snd (CreateMirror sample_enums sample_world cfg_url_only sample_package))) = [] \<and>
   RemoteURL (fst (snd (CreateMirror sample_enums sample_world cfg_url_only sample_package))) = []"
proof -
  have a: "\<not> already_mirrored cfg_both sample_package"
    "\<not> already_mirrored cfg_url_only sample_package"
    by (simp_all add: already_mirrored_def cfg_url_only_def GetString_def)
  have b: "fst (CreateMirror sample_enums sample_world cfg_both sample_package) = None"
    "fst (CreateMirror sample_enums sample_world cfg_url_only sample_package) = None"
    by code_simp+
  have c: "GetString cfg_url_only ''gapps.local_path'' = []"
    "GetString cfg_url_only ''gapps.local_url'' \<noteq> []"
    "GetString cfg_url_only ''gapps.remote_url'' = []"
    by (simp_all add: cfg_url_only_def GetString_def)
  have d: "sample_Sprintf ''https://mirror.example/%s''
      ''arm64/20230101/open_gapps-arm64-11.0-pico-20230101.zip'' =
     ''https://mirror.example/arm64/20230101/open_gapps-arm64-11.0-pico-20230101.zip''"
    by simp
  from a(1) b(1) d
    CreateMirror_success_urls [of cfg_both sample_package sample_enums sample_world]
  have "LocalURL (fst (snd (CreateMirror sample_enums sample_world cfg_both sample_package))) =
     ''https://mirror.example/arm64/20230101/open_gapps-arm64-11.0-pico-20230101.zip''"
    by simp
  moreover from a(2) b(2) c
    CreateMirror_success_urls [of cfg_url_only sample_package sample_enums sample_world]
  have "LocalURL (fst (snd (CreateMirror sample_enums sample_world cfg_url_only sample_package))) = [] \<and>
   RemoteURL (fst (snd (CreateMirror sample_enums sample_world cfg_url_only sample_package))) = []"
    by simp
  ultimately show ?thesis using a b by simp
qed

text \<open>
  Claim C6. \<^verbatim>\<open>move\<close> succeeds exactly when its three calls succeed: \<^verbatim>\<open>MkdirAll\<close> of the
  folder (the base path, the platform's string, a slash and the date, concatenated) with
  mode \<^verbatim>\<open>0755\<close> (493), \<^verbatim>\<open>Rename\<close> of the origin to the folder, a slash and the name, and
  \<^verbatim>\<open>Chmod\<close> of that path to \<^verbatim>\<open>0755\<close>. It then returns that path and has made these three
  calls, in this order. For platform \<^verbatim>\<open>arm64\<close>, date \<^verbatim>\<open>20230101\<close>, name
  \<^verbatim>\<open>open_gapps-arm64-11.0-pico-20230101.zip\<close> and base \<^verbatim>\<open>/data/\<close> the path is
  \<^verbatim>\<open>/data/arm64/20230101/open_gapps-arm64-11.0-pico-20230101.zip\<close>.
\<close>

theorem move_destination:
  "(snd (fst (move E W p origin destFolder)) = None) =
     (os_MkdirAll W (destFolder @ Platform_String E (Platform p) @ ''/'' @ Date p) 493 = None \<and>
      os_Rename W origin
        (destFolder @ Platform_String E (Platform p) @ ''/'' @ Date p @ ''/'' @ Name p) = None \<and>
      os_Chmod W
        (destFolder @ Platform_String E (Platform p) @ ''/'' @ Date p @ ''/'' @ Name p) 493 = None)
   \<and> (snd (fst (move E W p origin destFolder)) = None \<longrightarrow>
        move E W p origin destFolder =
          ((destFolder @ Platform_String E (Platform p) @ ''/'' @ Date p @ ''/'' @ Name p, None),
           [OsMkdirAll (destFolder @ Platform_String E (Platform p) @ ''/'' @ Date p) 493,
            OsRename origin
              (destFolder @ Platform_String E (Platform p) @ ''/'' @ Date p @ ''/'' @ Name p),
            OsChmod
              (destFolder @ Platform_String E (Platform p) @ ''/'' @ Date p @ ''/'' @ Name p)
              493]))"
  by (auto simp: move_def Let_def mode_0755_def split: option.splits)

theorem move_destination_witness:
  "snd (fst (move sample_enums sample_world sample_package ''/tmp/download-1'' ''/data/'')) = None \<and>
   move sample_enums sample_world sample_package ''/tmp/download-1'' ''/data/'' =
     ((''/data/arm64/20230101/open_gapps-arm64-11.0-pico-20230101.zip'', None),
      [OsMkdirAll ''/data/arm64/20230101'' 493,
       OsRename ''/tmp/download-1''
         ''/data/arm64/20230101/open_gapps-arm64-11.0-pico-20230101.zip'',
       OsChmod ''/data/arm64/20230101/open_gapps-arm64-11.0-pico-20230101.zip'' 493])"
  using move_destination [of sample_enums sample_world sample_package "''/tmp/download-1''" "''/data/''"]
  by simp

text \<open>
  Claim C9. When the sidecar file is downloaded, opened and read, \<^verbatim>\<open>getMD5\<close> returns, with
  no error and no panic, the content up to its first two consecutive spaces, and the
  whole content (a trailing newline included) when it has no two consecutive spaces.
  The same holds of \<^verbatim>\<open>getMD5\<close> in package gapps when its download succeeds.
\<close>

theorem getMD5_prefix:
  "(dq_AddSingle W url = Inr fp \<and> os_Open W (filepath_Clean W fp) = Inr f \<and>
    ioutil_ReadAll W f = Inr content \<longrightarrow>
      (\<exists>md5. fst (getMD5 W url) = Return (md5, None) \<and> up_to_double_space content md5)) \<and>
   (Download url 1 0 = Inr content \<longrightarrow>
      (\<exists>md5. gapps_getMD5 Download url = Return (md5, None) \<and>
         up_to_double_space content md5))"
proof -
  from Split_first_field [of content] obtain md5 rest
    where s: "Split content ''  '' = md5 # rest" and u: "up_to_double_space content md5"
    by blast
  have "fst (getMD5 W url) = Return (md5, None)"
    if "dq_AddSingle W url = Inr fp" "os_Open W (filepath_Clean W fp) = Inr f"
      "ioutil_ReadAll W f = Inr content"
    using that s by (simp add: getMD5_def)
  moreover have "gapps_getMD5 Download url = Return (md5, None)"
    if "Download url 1 0 = Inr content"
    using that s by (simp add: gapps_getMD5_def)
  ultimately show ?thesis using u by blast
qed

theorem getMD5_prefix_witness:
  "dq_AddSingle sample_world ''https://example.org/pkg.zip.md5'' = Inr ''/tmp/download-2'' \<and>
   os_Open sample_world (filepath_Clean sample_world ''/tmp/download-2'') =
     Inr (File ''/tmp/download-2'') \<and>
   ioutil_ReadAll sample_world (File ''/tmp/download-2'') = Inr sample_sidecar \<and>
   fst (getMD5 sample_world ''https://example.org/pkg.zip.md5'') =
     Return (''0cc175b9c0f1b6a831c399e269772661'', None) \<and>
   up_to_double_space sample_sidecar ''0cc175b9c0f1b6a831c399e269772661'' \<and>
   ioutil_ReadAll bare_world (File ''/tmp/download-2'') = Inr bare_sidecar \<and>
   fst (getMD5 bare_world ''https://example.org/pkg.zip.md5'') = Return (bare_sidecar, None)"
proof -
  have a: "dq_AddSingle sample_world ''https://example.org/pkg.zip.md5'' = Inr ''/tmp/download-2''"
    "os_Open sample_world (filepath_Clean sample_world ''/tmp/download-2'') =
       Inr (File ''/tmp/download-2'')"
    "ioutil_ReadAll sample_world (File ''/tmp/download-2'') = Inr sample_sidecar"
    by (simp_all add: sample_world_def sample_sidecar_def)
  have b: "dq_AddSingle bare_world ''https://example.org/pkg.zip.md5'' = Inr ''/tmp/download-2''"
    "os_Open bare_world (filepath_Clean bare_world ''/tmp/download-2'') =
       Inr (File ''/tmp/download-2'')"
    "ioutil_ReadAll bare_world (File ''/tmp/download-2'') = Inr bare_sidecar"
    by (simp_all add: bare_world_def sample_world_def)
  have c: "fst (getMD5 sample_world ''https://example.org/pkg.zip.md5'') =
     Return (''0cc175b9c0f1b6a831c399e269772661'', None)"
    by code_simp
  from a getMD5_prefix [of sample_world "''https://example.org/pkg.zip.md5''"
      "''/tmp/download-2''" "File ''/tmp/download-2''" sample_sidecar]
  obtain md5 where
    "fst (getMD5 sample_world ''https://example.org/pkg.zip.md5'') = Return (md5, None)"
    "up_to_double_space sample_sidecar md5"
    by blast
  with c have d: "up_to_double_space sample_sidecar ''0cc175b9c0f1b6a831c399e269772661''"
    by simp
  from b getMD5_prefix [of bare_world "''https://example.org/pkg.zip.md5''"
      "''/tmp/download-2''" "File ''/tmp/download-2''" bare_sidecar]
  obtain md5' where
    "fst (getMD5 bare_world ''https://example.org/pkg.zip.md5'') = Return (md5', None)"
    "up_to_double_space bare_sidecar md5'"
    by blast
  with bare_sidecar_no_double_space
  have e: "fst (getMD5 bare_world ''https://example.org/pkg.zip.md5'') =
      Return (bare_sidecar, None)"
    by (simp add: up_to_double_space_def)
  from a b c d e show ?thesis by simp
qed

text \<open>
  Claim C3, as the code has it. A name
  \<^verbatim>\<open>prefix-platform-a.b-variant-date.zip\<close>, whose parts have no dot and no separator in
  them, parses to a package when the lookups accept the platform token, the token \<open>ab\<close>
  (the android version with its dot removed) and the variant token, and the format
  accepts the date; the package has the values of these lookups and this date. A name
  built from tokens with no dot at all has two segments and is rejected.
\<close>

theorem parseAsset_round_trip:
  "(CHR ''.'' \<notin> set (platform @ a @ b @ variant @ date) \<and>
    CHR ''-'' \<notin> set (platform @ a @ b @ variant @ date) \<and>
    GetName asset =
      asset_name (GetString cfg ''gapps.prefix'') platform (a @ ''.'' @ b) variant date \<and>
    PlatformString E platform = Inr P \<and> AndroidString E (a @ b) = Inr A \<and>
    VariantString E variant = Inr V \<and>
    time_Parse W (GetString cfg ''gapps.time_format'') date = None \<longrightarrow>
      parseAsset E W cfg asset md5Sum =
        (Some \<lparr>Name = GetName asset, Date = date, OriginURL = GetBrowserDownloadURL asset,
               LocalURL = [], RemoteURL = [], MD5 = md5Sum, Size = GetSize asset,
               Platform = P, Android = A, Variant = V\<rparr>,
         None)) \<and>
   (CHR ''.'' \<notin> set (platform @ android @ variant @ date) \<and>
    GetName asset =
      asset_name (GetString cfg ''gapps.prefix'') platform android variant date \<longrightarrow>
      parseAsset E W cfg asset md5Sum =
        (None, Some (Errorf (''incorrect package name: '' @ GetName asset))))"
proof (intro conjI impI)
  assume h: "CHR ''.'' \<notin> set (platform @ a @ b @ variant @ date) \<and>
    CHR ''-'' \<notin> set (platform @ a @ b @ variant @ date) \<and>
    GetName asset =
      asset_name (GetString cfg ''gapps.prefix'') platform (a @ ''.'' @ b) variant date \<and>
    PlatformString E platform = Inr P \<and> AndroidString E (a @ b) = Inr A \<and>
    VariantString E variant = Inr V \<and>
    time_Parse W (GetString cfg ''gapps.time_format'') date = None"
  then have dots: "CHR ''.'' \<notin> set (platform @ a @ b @ variant @ date)"
    and seps: "CHR ''-'' \<notin> set (platform @ a @ b @ variant @ date)"
    and name: "GetName asset =
      asset_name (GetString cfg ''gapps.prefix'') platform (a @ ''.'' @ b) variant date"
    by blast+
  have segs: "name_segments cfg (GetName asset) =
      [platform @ ''-'' @ a, b @ ''-'' @ variant @ ''-'' @ date, ''zip'']"
    by (rule name_segments_dotted [OF dots name])
  have toks: "name_tokens cfg (GetName asset) = [platform, a @ b, variant, date]"
    by (rule name_tokens_dotted [OF dots seps name])
  from h show "parseAsset E W cfg asset md5Sum =
        (Some \<lparr>Name = GetName asset, Date = date, OriginURL = GetBrowserDownloadURL asset,
               LocalURL = [], RemoteURL = [], MD5 = md5Sum, Size = GetSize asset,
               Platform = P, Android = A, Variant = V\<rparr>,
         None)"
    unfolding parseAsset_unfold segs toks by simp
next
  assume h: "CHR ''.'' \<notin> set (platform @ android @ variant @ date) \<and>
    GetName asset =
      asset_name (GetString cfg ''gapps.prefix'') platform android variant date"
  then have "name_segments cfg (GetName asset) =
      [platform @ ''-'' @ android @ ''-'' @ variant @ ''-'' @ date, ''zip'']"
    by (intro name_segments_plain) blast+
  then show "parseAsset E W cfg asset md5Sum =
        (None, Some (Errorf (''incorrect package name: '' @ GetName asset)))"
    unfolding parseAsset_unfold by simp
qed


text \<open>
  As the claim states it, the android field would be the value of the android token of
  the name. With the token \<^verbatim>\<open>110\<close> valid, the name built from it has one dot and is
  rejected; with the token \<^verbatim>\<open>11.0\<close> valid, the name built from it is split at its dot, the
  lookup is asked for \<^verbatim>\<open>110\<close>, and the name is rejected.
\<close>

theorem parseAsset_round_trip_counterexample:
  "parseAsset sample_enums sample_world cfg_both
     (sample_asset ''open_gapps-arm64-110-pico-20230101.zip'')
     ''0cc175b9c0f1b6a831c399e269772661'' =
     (None, Some (Errorf ''incorrect package name: open_gapps-arm64-110-pico-20230101.zip'')) \<and>
   \<not> round_trip sample_enums sample_world cfg_both ''arm64'' ''110'' ''pico'' ''20230101''
       (sample_asset ''open_gapps-arm64-110-pico-20230101.zip'')
       ''0cc175b9c0f1b6a831c399e269772661'' \<and>
   parseAsset dotted_enums sample_world cfg_both
     (sample_asset ''open_gapps-arm64-11.0-pico-20230101.zip'')
     ''0cc175b9c0f1b6a831c399e269772661'' =
     (None,
      Some (Wrap (Errorf ''110 does not belong to Android values'') ''parsing error'')) \<and>
   \<not> round_trip dotted_enums sample_world cfg_both ''arm64'' ''11.0'' ''pico'' ''20230101''
       (sample_asset ''open_gapps-arm64-11.0-pico-20230101.zip'')
       ''0cc175b9c0f1b6a831c399e269772661''"
proof -
  have a: "parseAsset sample_enums sample_world cfg_both
     (sample_asset ''open_gapps-arm64-110-pico-20230101.zip'')
     ''0cc175b9c0f1b6a831c399e269772661'' =
     (None, Some (Errorf ''incorrect package name: open_gapps-arm64-110-pico-20230101.zip''))"
    by code_simp
  have b: "parseAsset dotted_enums sample_world cfg_both
     (sample_asset ''open_gapps-arm64-11.0-pico-20230101.zip'')
     ''0cc175b9c0f1b6a831c399e269772661'' =
     (None,
      Some (Wrap (Errorf ''110 does not belong to Android values'') ''parsing error''))"
    by code_simp
  from a b show ?thesis
    by (simp add: round_trip_def asset_name_def)
qed

theorem parseAsset_round_trip_witness:
  "CHR ''.'' \<notin> set (''arm64'' @ ''11'' @ ''0'' @ ''pico'' @ ''20230101'') \<and>
   CHR ''-'' \<notin> set (''arm64'' @ ''11'' @ ''0'' @ ''pico'' @ ''20230101'') \<and>
   asset_name (GetString cfg_both ''gapps.prefix'') ''arm64'' (''11'' @ ''.'' @ ''0'') ''pico''
     ''20230101'' = ''open_gapps-arm64-11.0-pico-20230101.zip'' \<and>
   parseAsset sample_enums sample_world cfg_both
     (sample_asset ''open_gapps-arm64-11.0-pico-20230101.zip'')
     ''0cc175b9c0f1b6a831c399e269772661'' =
     (Some \<lparr>Name = ''open_gapps-arm64-11.0-pico-20230101.zip'', Date = ''20230101'',
            OriginURL = ''https://github.com/opengapps/arm64/releases/download/20230101/open_gapps-arm64-11.0-pico-20230101.zip'',
            LocalURL = [], RemoteURL = [], MD5 = ''0cc175b9c0f1b6a831c399e269772661'',
            Size = 100, Platform = 2, Android = 9, Variant = 1\<rparr>,
      None)"
proof -
  have a: "CHR ''.'' \<notin> set (''arm64'' @ ''11'' @ ''0'' @ ''pico'' @ ''20230101'')"
    "CHR ''-'' \<notin> set (''arm64'' @ ''11'' @ ''0'' @ ''pico'' @ ''20230101'')"
    by simp_all
  have b: "GetName (sample_asset ''open_gapps-arm64-11.0-pico-20230101.zip'') =
    asset_name (GetString cfg_both ''gapps.prefix'') ''arm64'' (''11'' @ ''.'' @ ''0'') ''pico''
      ''20230101''"
    by (simp add: asset_name_def)
  have c: "AndroidString sample_enums (''11'' @ ''0'') = Inr 9" by simp
  from a b c
    parseAsset_round_trip [of "''arm64''" "''11''" "''0''" "''pico''" "''20230101''"
      "sample_asset ''open_gapps-arm64-11.0-pico-20230101.zip''" cfg_both sample_enums 2 9 1
      sample_world "''0cc175b9c0f1b6a831c399e269772661''"]
  show ?thesis by (simp add: sample_asset_def asset_name_def)
qed

text \<open>
  Claim C4, as the code has it. The segments of a name are the code's split at dots,
  and its tokens are the code's split at the separator of the first two segments joined
  without the dot. \<^verbatim>\<open>parseAsset\<close> returns no package and an error when the name does not
  have 3 segments ("incorrect package name" with the name), when the last segment is not
  \<^verbatim>\<open>zip\<close> ("incorrect package extension" with the segment), when there are not 4 tokens
  ("incorrect package name" with the name), when a lookup of the platform, android or
  variant token fails ("parsing error" wrapping the error of a failed lookup), and when
  the date token does not parse ("unable to parse time" wrapping the error of the
  parser, when the three lookups succeed). In every case the package is returned exactly
  when the error is nil.
\<close>

theorem parseAsset_rejects:
  "(length (name_segments cfg (GetName asset)) \<noteq> 3 \<longrightarrow>
      parseAsset E W cfg asset md5Sum =
        (None, Some (Errorf (''incorrect package name: '' @ GetName asset)))) \<and>
   (length (name_segments cfg (GetName asset)) = 3 \<and>
    name_segments cfg (GetName asset) ! 2 \<noteq> ''zip'' \<longrightarrow>
      parseAsset E W cfg asset md5Sum =
        (None, Some (Errorf (''incorrect package extension: '' @
           name_segments cfg (GetName asset) ! 2)))) \<and>
   (length (name_segments cfg (GetName asset)) = 3 \<and>
    name_segments cfg (GetName asset) ! 2 = ''zip'' \<and>
    length (name_tokens cfg (GetName asset)) \<noteq> 4 \<longrightarrow>
      parseAsset E W cfg asset md5Sum =
        (None, Some (Errorf (''incorrect package name: '' @ GetName asset)))) \<and>
   (length (name_segments cfg (GetName asset)) = 3 \<and>
    name_segments cfg (GetName asset) ! 2 = ''zip'' \<and>
    length (name_tokens cfg (GetName asset)) = 4 \<longrightarrow>
      (isl (PlatformString E (name_tokens cfg (GetName asset) ! 0)) \<or>
       isl (AndroidString E (name_tokens cfg (GetName asset) ! 1)) \<or>
       isl (VariantString E (name_tokens cfg (GetName asset) ! 2)) \<longrightarrow>
         (\<exists>e. parseAsset E W cfg asset md5Sum = (None, Some (Wrap e ''parsing error'')) \<and>
              (PlatformString E (name_tokens cfg (GetName asset) ! 0) = Inl e \<or>
               AndroidString E (name_tokens cfg (GetName asset) ! 1) = Inl e \<or>
               VariantString E (name_tokens cfg (GetName asset) ! 2) = Inl e))) \<and>
      (\<forall>e. time_Parse W (GetString cfg ''gapps.time_format'')
             (name_tokens cfg (GetName asset) ! 3) = Some e \<longrightarrow>
           fst (parseAsset E W cfg asset md5Sum) = None \<and>
           (\<not> isl (PlatformString E (name_tokens cfg (GetName asset) ! 0)) \<and>
            \<not> isl (AndroidString E (name_tokens cfg (GetName asset) ! 1)) \<and>
            \<not> isl (VariantString E (name_tokens cfg (GetName asset) ! 2)) \<longrightarrow>
              parseAsset E W cfg asset md5Sum =
                (None, Some (Wrap e ''unable to parse time''))))) \<and>
   ((fst (parseAsset E W cfg asset md5Sum) = None) =
    (snd (parseAsset E W cfg asset md5Sum) \<noteq> None))"
  by (auto simp: parseAsset_unfold split: sum.splits option.splits)


theorem parseAsset_rejects_witness:
  "length (name_segments cfg_both ''open_gapps-arm64-110-pico-20230101.zip'') \<noteq> 3 \<and>
   parseAsset sample_enums sample_world cfg_both
     (sample_asset ''open_gapps-arm64-110-pico-20230101.zip'') ''0cc1'' =
     (None, Some (Errorf ''incorrect package name: open_gapps-arm64-110-pico-20230101.zip'')) \<and>
   name_segments cfg_both ''open_gapps-arm64-11.0-pico-20230101.tgz'' =
     [''arm64-11'', ''0-pico-20230101'', ''tgz''] \<and>
   parseAsset sample_enums sample_world cfg_both
     (sample_asset ''open_gapps-arm64-11.0-pico-20230101.tgz'') ''0cc1'' =
     (None, Some (Errorf ''incorrect package extension: tgz'')) \<and>
   name_tokens cfg_both ''open_gapps-arm64-11.0-20230101.zip'' =
     [''arm64'', ''110'', ''20230101''] \<and>
   parseAsset sample_enums sample_world cfg_both
     (sample_asset ''open_gapps-arm64-11.0-20230101.zip'') ''0cc1'' =
     (None, Some (Errorf ''incorrect package name: open_gapps-arm64-11.0-20230101.zip'')) \<and>
   name_tokens cfg_both ''open_gapps-mips-11.0-pico-20230101.zip'' =
     [''mips'', ''110'', ''pico'', ''20230101''] \<and>
   parseAsset sample_enums sample_world cfg_both
     (sample_asset ''open_gapps-mips-11.0-pico-20230101.zip'') ''0cc1'' =
     (None,
      Some (Wrap (Errorf ''mips does not belong to Platform values'') ''parsing error'')) \<and>
   name_tokens cfg_both ''open_gapps-arm64-11.0-pico-2023.zip'' =
     [''arm64'', ''110'', ''pico'', ''2023''] \<and>
   parseAsset sample_enums sample_world cfg_both
     (sample_asset ''open_gapps-arm64-11.0-pico-2023.zip'') ''0cc1'' =
     (None, Some (Wrap (Errorf ''parsing time: cannot parse'') ''unable to parse time''))"
proof -
  have s1: "name_segments cfg_both ''open_gapps-arm64-110-pico-20230101.zip'' =
      [''arm64-110-pico-20230101'', ''zip'']"
    and s2: "name_segments cfg_both ''open_gapps-arm64-11.0-pico-20230101.tgz'' =
      [''arm64-11'', ''0-pico-20230101'', ''tgz'']"
    and s3: "name_segments cfg_both ''open_gapps-arm64-11.0-20230101.zip'' =
      [''arm64-11'', ''0-20230101'', ''zip'']"
    and s4: "name_segments cfg_both ''open_gapps-mips-11.0-pico-20230101.zip'' =
      [''mips-11'', ''0-pico-20230101'', ''zip'']"
    and s5: "name_segments cfg_both ''open_gapps-arm64-11.0-pico-2023.zip'' =
      [''arm64-11'', ''0-pico-2023'', ''zip'']"
    by code_simp+
  have t3: "name_tokens cfg_both ''open_gapps-arm64-11.0-20230101.zip'' =
      [''arm64'', ''110'', ''20230101'']"
    and t4: "name_tokens cfg_both ''open_gapps-mips-11.0-pico-20230101.zip'' =
      [''mips'', ''110'', ''pico'', ''20230101'']"
    and t5: "name_tokens cfg_both ''open_gapps-arm64-11.0-pico-2023.zip'' =
      [''arm64'', ''110'', ''pico'', ''2023'']"
    by code_simp+
  have l: "PlatformString sample_enums ''mips'' =
      Inl (Errorf ''mips does not belong to Platform values'')"
    "AndroidString sample_enums ''110'' = Inr 9" "VariantString sample_enums ''pico'' = Inr 1"
    "PlatformString sample_enums ''arm64'' = Inr 2"
    "time_Parse sample_world ''20060102'' ''2023'' = Some (Errorf ''parsing time: cannot parse'')"
    by (simp_all add: sample_enums_def sample_world_def)
  from s1 parseAsset_rejects [of cfg_both
      "sample_asset ''open_gapps-arm64-110-pico-20230101.zip''" sample_enums sample_world "''0cc1''"]
  have r1: "parseAsset sample_enums sample_world cfg_both
     (sample_asset ''open_gapps-arm64-110-pico-20230101.zip'') ''0cc1'' =
     (None, Some (Errorf ''incorrect package name: open_gapps-arm64-110-pico-20230101.zip''))"
    by simp
  from s2 parseAsset_rejects [of cfg_both
      "sample_asset ''open_gapps-arm64-11.0-pico-20230101.tgz''" sample_enums sample_world "''0cc1''"]
  have r2: "parseAsset sample_enums sample_world cfg_both
     (sample_asset ''open_gapps-arm64-11.0-pico-20230101.tgz'') ''0cc1'' =
     (None, Some (Errorf ''incorrect package extension: tgz''))"
    by simp
  from s3 t3 parseAsset_rejects [of cfg_both
      "sample_asset ''open_gapps-arm64-11.0-20230101.zip''" sample_enums sample_world "''0cc1''"]
  have r3: "parseAsset sample_enums sample_world cfg_both
     (sample_asset ''open_gapps-arm64-11.0-20230101.zip'') ''0cc1'' =
     (None, Some (Errorf ''incorrect package name: open_gapps-arm64-11.0-20230101.zip''))"
    by simp
  from s4 t4 l parseAsset_rejects [of cfg_both
      "sample_asset ''open_gapps-mips-11.0-pico-20230101.zip''" sample_enums sample_world "''0cc1''"]
  have r4: "parseAsset sample_enums sample_world cfg_both
     (sample_asset ''open_gapps-mips-11.0-pico-20230101.zip'') ''0cc1'' =
     (None,
      Some (Wrap (Errorf ''mips does not belong to Platform values'') ''parsing error''))"
    by simp
  from s5 t5 l parseAsset_rejects [of cfg_both
      "sample_asset ''open_gapps-arm64-11.0-pico-2023.zip''" sample_enums sample_world "''0cc1''"]
  have r5: "parseAsset sample_enums sample_world cfg_both
     (sample_asset ''open_gapps-arm64-11.0-pico-2023.zip'') ''0cc1'' =
     (None, Some (Wrap (Errorf ''parsing time: cannot parse'') ''unable to parse time''))"
    by simp
  from s1 s2 t3 t4 t5 r1 r2 r3 r4 r5 show ?thesis by simp
qed

text \<open>
  As the claim states it, a name whose platform, android or variant token is unknown,
  or whose date does not parse, would be rejected. The code reads the tokens after it
  has joined the two segments before the extension without the dot between them: the
  names with the variant \<^verbatim>\<open>pi.co\<close>, with the date \<^verbatim>\<open>2023.0101\<close> and with the android
  version \<^verbatim>\<open>11.0\<close>, none of which the lookups or the format accept as written, are parsed
  to packages.
\<close>

theorem parseAsset_rejects_counterexample:
  "VariantString sample_enums ''pi.co'' =
     Inl (Errorf ''pi.co does not belong to Variant values'') \<and>
   parseAsset sample_enums sample_world cfg_both
     (sample_asset ''open_gapps-arm64-110-pi.co-20230101.zip'') ''0cc1'' =
     (Some \<lparr>Name = ''open_gapps-arm64-110-pi.co-20230101.zip'', Date = ''20230101'',
            OriginURL = ''https://github.com/opengapps/arm64/releases/download/20230101/open_gapps-arm64-110-pi.co-20230101.zip'',
            LocalURL = [], RemoteURL = [], MD5 = ''0cc1'', Size = 100,
            Platform = 2, Android = 9, Variant = 1\<rparr>,
      None) \<and>
   \<not> rejects_as_stated sample_enums sample_world cfg_both ''arm64'' ''110'' ''pi.co''
       ''20230101'' (sample_asset ''open_gapps-arm64-110-pi.co-20230101.zip'') ''0cc1'' \<and>
   time_Parse sample_world ''20060102'' ''2023.0101'' =
     Some (Errorf ''parsing time: cannot parse'') \<and>
   map_option Date (fst (parseAsset sample_enums sample_world cfg_both
     (sample_asset ''open_gapps-arm64-110-pico-2023.0101.zip'') ''0cc1'')) =
     Some ''20230101'' \<and>
   \<not> rejects_as_stated sample_enums sample_world cfg_both ''arm64'' ''110'' ''pico''
       ''2023.0101'' (sample_asset ''open_gapps-arm64-110-pico-2023.0101.zip'') ''0cc1'' \<and>
   AndroidString sample_enums ''11.0'' =
     Inl (Errorf ''11.0 does not belong to Android values'') \<and>
   map_option Android (fst (parseAsset sample_enums sample_world cfg_both
     (sample_asset ''open_gapps-arm64-11.0-pico-20230101.zip'') ''0cc1'')) = Some 9 \<and>
   \<not> rejects_as_stated sample_enums sample_world cfg_both ''arm64'' ''11.0'' ''pico''
       ''20230101'' (sample_asset ''open_gapps-arm64-11.0-pico-20230101.zip'') ''0cc1''"
proof -
  have l: "VariantString sample_enums ''pi.co'' =
     Inl (Errorf ''pi.co does not belong to Variant values'')"
    "time_Parse sample_world ''20060102'' ''2023.0101'' =
     Some (Errorf ''parsing time: cannot parse'')"
    "AndroidString sample_enums ''11.0'' =
     Inl (Errorf ''11.0 does not belong to Android values'')"
    by (simp_all add: sample_enums_def sample_world_def)
  have a: "parseAsset sample_enums sample_world cfg_both
     (sample_asset ''open_gapps-arm64-110-pi.co-20230101.zip'') ''0cc1'' =
     (Some \<lparr>Name = ''open_gapps-arm64-110-pi.co-20230101.zip'', Date = ''20230101'',
            OriginURL = ''https://github.com/opengapps/arm64/releases/download/20230101/open_gapps-arm64-110-pi.co-20230101.zip'',
            LocalURL = [], RemoteURL = [], MD5 = ''0cc1'', Size = 100,
            Platform = 2, Android = 9, Variant = 1\<rparr>,
      None)"
    by code_simp
  have b: "map_option Date (fst (parseAsset sample_enums sample_world cfg_both
     (sample_asset ''open_gapps-arm64-110-pico-2023.0101.zip'') ''0cc1'')) =
     Some ''20230101''"
    by code_simp
  have c: "map_option Android (fst (parseAsset sample_enums sample_world cfg_both
     (sample_asset ''open_gapps-arm64-11.0-pico-20230101.zip'') ''0cc1'')) = Some 9"
    by code_simp
  from b have b': "fst (parseAsset sample_enums sample_world cfg_both
     (sample_asset ''open_gapps-arm64-110-pico-2023.0101.zip'') ''0cc1'') \<noteq> None"
    by auto
  from c have c': "fst (parseAsset sample_enums sample_world cfg_both
     (sample_asset ''open_gapps-arm64-11.0-pico-20230101.zip'') ''0cc1'') \<noteq> None"
    by auto
  from l a b c b' c' show ?thesis
    by (simp add: rejects_as_stated_def asset_name_def)
qed

text \<open>
  Claim C5, as the code has it. With the guard not fired, \<^verbatim>\<open>gapps.remote_url\<close> set, the
  download done, the move (when \<^verbatim>\<open>gapps.local_path\<close> is set) done, the file opened and
  the request made, \<^verbatim>\<open>CreateMirror\<close> sends one request: a \<^verbatim>\<open>PUT\<close> of the opened file to the
  template with the name of the package substituted, with the headers
  \<^verbatim>\<open>Content-Type: application/zip\<close> and \<^verbatim>\<open>Max-Days: 7\<close>. Every request that \<^verbatim>\<open>CreateMirror\<close>
  sends is this one. When the response has status 200 and its body is read, the call
  succeeds and \<^verbatim>\<open>RemoteURL\<close> is the body as it is; when the response has status 200 and
  reading its body fails, the call fails with that error wrapped as "unable to read
  mirror response body"; for every other status, 201 among them, the call fails with
  an error that carries the status text of the response. In both failures \<^verbatim>\<open>RemoteURL\<close>
  is as it was.
\<close>

theorem CreateMirror_upload:
  "(\<not> already_mirrored cfg p \<and> GetString cfg ''gapps.remote_url'' \<noteq> [] \<and>
    dq_AddMultiple W (OriginURL p) (MD5 p) 20 (Size p) = Inr fp \<and>
    (GetString cfg ''gapps.local_path'' \<noteq> [] \<longrightarrow>
       snd (fst (move E W p fp (GetString cfg ''gapps.local_path''))) = None) \<and>
    os_Open W (filepath_Clean W (upload_path E cfg p fp)) = Inr f \<and>
    http_NewRequest W ''PUT''
      (fmt_Sprintf W (GetString cfg ''gapps.remote_url'') (Name p)) = None \<longrightarrow>
      filter is_HttpDo (snd (snd (CreateMirror E W cfg p))) =
        [HttpDo \<lparr>Method = ''PUT'',
                 URL = fmt_Sprintf W (GetString cfg ''gapps.remote_url'') (Name p),
                 Body = f,
                 Header = [(''Content-Type'', [''application/zip'']),
                           (''Max-Days'', [''7''])]\<rparr>]) \<and>
   (\<not> already_mirrored cfg p \<and> HttpDo req \<in> set (snd (snd (CreateMirror E W cfg p))) \<longrightarrow>
     GetString cfg ''gapps.remote_url'' \<noteq> [] \<and>
     Method req = ''PUT'' \<and>
     URL req = fmt_Sprintf W (GetString cfg ''gapps.remote_url'') (Name p) \<and>
     map_of (Header req) ''Content-Type'' = Some [''application/zip''] \<and>
     map_of (Header req) ''Max-Days'' = Some [''7''] \<and>
     filter is_HttpDo (snd (snd (CreateMirror E W cfg p))) = [HttpDo req] \<and>
     (\<forall>resp. http_Do W req = Inr resp \<longrightarrow>
        (StatusCode resp = 200 \<longrightarrow>
           (\<forall>body. ReadBody resp = Inr body \<longrightarrow>
              fst (CreateMirror E W cfg p) = None \<and>
              RemoteURL (fst (snd (CreateMirror E W cfg p))) = body) \<and>
           (\<forall>e. ReadBody resp = Inl e \<longrightarrow>
              fst (CreateMirror E W cfg p) =
                Some (Wrap e ''unable to read mirror response body'') \<and>
              RemoteURL (fst (snd (CreateMirror E W cfg p))) = RemoteURL p)) \<and>
        (StatusCode resp \<noteq> 200 \<longrightarrow>
           fst (CreateMirror E W cfg p) =
             Some (Errorf (''unable to make upload request: '' @ Status resp)) \<and>
           RemoteURL (fst (snd (CreateMirror E W cfg p))) = RemoteURL p)))"
  (is "(?HA \<longrightarrow> ?CA) \<and> (?HB \<longrightarrow> ?CB)")
proof (rule conjI)
  show "?HA \<longrightarrow> ?CA"
  proof (intro impI, elim conjE)
    assume g: "\<not> already_mirrored cfg p"
      and cfgd: "GetString cfg ''gapps.remote_url'' \<noteq> []"
      and dl: "dq_AddMultiple W (OriginURL p) (MD5 p) 20 (Size p) = Inr fp"
      and mv: "GetString cfg ''gapps.local_path'' \<noteq> [] \<longrightarrow>
         snd (fst (move E W p fp (GetString cfg ''gapps.local_path''))) = None"
      and op: "os_Open W (filepath_Clean W (upload_path E cfg p fp)) = Inr f"
      and nr: "http_NewRequest W ''PUT''
        (fmt_Sprintf W (GetString cfg ''gapps.remote_url'') (Name p)) = None"
    from place_local_ok [OF mv] obtain p1 tr1 d1
      where pl: "place_local E W cfg p fp = (None, upload_path E cfg p fp, p1, tr1, d1)"
      by blast
    from place_local_url(3) [OF pl] have n1: "Name p1 = Name p" .
    obtain err p2 tr2 d2
      where up: "upload_remote W cfg p1 (upload_path E cfg p fp) = (err, p2, tr2, d2)"
      by (metis prod_cases4)
    from upload_remote_sends [OF cfgd op, of p1] nr n1 up
    have sent: "filter is_HttpDo (tr2 @ d2) = [HttpDo (upload_request W cfg p1 f)]"
      by simp
    from place_local_no_request [OF pl] have none: "filter is_HttpDo (tr1 @ d1) = []" .
    from g dl pl up have "snd (snd (CreateMirror E W cfg p)) =
        [DqAddMultiple (OriginURL p) (MD5 p) 20 (Size p),
         LogDebugf ''Package downloaded to %s'' [fp]] @ tr1 @ tr2 @ d2 @ d1"
      by (simp add: CreateMirror_def already_mirrored_def)
    with sent none n1
    show ?CA
      by (simp add: is_HttpDo_def upload_request_def)
  qed
next
  show "?HB \<longrightarrow> ?CB"
  proof (intro impI, elim conjE)
    assume g: "\<not> already_mirrored cfg p"
      and r: "HttpDo req \<in> set (snd (snd (CreateMirror E W cfg p)))"
    have h: "is_HttpDo (HttpDo req)" by (simp add: is_HttpDo_def)
    from g show ?CB
    proof (cases rule: CreateMirror_cases [of cfg p W E])
      case (download_failed err)
      with r show ?thesis by simp
    next
      case (local_failed fp err fp1 p1 tr1 d1)
      from place_local_no_request [OF local_failed(2)] h
      have "HttpDo req \<notin> set (tr1 @ d1)" by (rule not_in_filtered)
      with r local_failed show ?thesis by simp
    next
      case (uploaded fp fp1 p1 tr1 d1 err p2 tr2 d2)
      note nl = place_local_no_request [OF uploaded(2)]
      from nl h have "HttpDo req \<notin> set (tr1 @ d1)" by (rule not_in_filtered)
      with r uploaded have m: "HttpDo req \<in> set (tr2 @ d2)" by auto
      note u = upload_remote_request [OF uploaded(3) m]
      note ur = upload_remote_unread [OF uploaded(3) m]
      have n1: "Name p1 = Name p" and r1: "RemoteURL p1 = RemoteURL p"
        using place_local_url(3,4) [OF uploaded(2)] by simp_all
      from u(2) obtain f where f: "req = upload_request W cfg p1 f" ..
      from nl u(3) uploaded(4)
      have one: "filter is_HttpDo (snd (snd (CreateMirror E W cfg p))) = [HttpDo req]"
        by (simp add: is_HttpDo_def)
      from u(4) ur uploaded(4) r1
      have out: "\<forall>resp. http_Do W req = Inr resp \<longrightarrow>
          (StatusCode resp = 200 \<longrightarrow>
             (\<forall>body. ReadBody resp = Inr body \<longrightarrow>
                fst (CreateMirror E W cfg p) = None \<and>
                RemoteURL (fst (snd (CreateMirror E W cfg p))) = body) \<and>
             (\<forall>e. ReadBody resp = Inl e \<longrightarrow>
                fst (CreateMirror E W cfg p) =
                  Some (Wrap e ''unable to read mirror response body'') \<and>
                RemoteURL (fst (snd (CreateMirror E W cfg p))) = RemoteURL p)) \<and>
          (StatusCode resp \<noteq> 200 \<longrightarrow>
             fst (CreateMirror E W cfg p) =
               Some (Errorf (''unable to make upload request: '' @ Status resp)) \<and>
             RemoteURL (fst (snd (CreateMirror E W cfg p))) = RemoteURL p)"
        by auto
      from u(1) f n1 one out show ?thesis
        by (simp add: upload_request_def)
    qed
  qed
qed


text \<open>
  As the claim states it, every response with status 200 would make the call a success.
  When the body of such a response cannot be read, the call returns an error and
  \<^verbatim>\<open>RemoteURL\<close> stays empty.
\<close>

theorem CreateMirror_upload_counterexample:
  "\<not> already_mirrored cfg_both sample_package \<and>
   HttpDo sample_request \<in>
     set (snd (snd (CreateMirror sample_enums unread_world cfg_both sample_package))) \<and>
   http_Do unread_world sample_request = Inr unread_response \<and>
   StatusCode unread_response = 200 \<and>
   fst (CreateMirror sample_enums unread_world cfg_both sample_package) =
     Some (Wrap (Errorf ''unexpected EOF'') ''unable to read mirror response body'') \<and>
   RemoteURL (fst (snd (CreateMirror sample_enums unread_world cfg_both sample_package))) = [] \<and>
   \<not> ok_is_success sample_enums unread_world cfg_both sample_package sample_request
       unread_response"
proof -
  have a: "\<not> already_mirrored cfg_both sample_package"
    by (simp add: already_mirrored_def)
  have b: "HttpDo sample_request \<in>
     set (snd (snd (CreateMirror sample_enums unread_world cfg_both sample_package)))"
    by code_simp
  have c: "http_Do unread_world sample_request = Inr unread_response"
    "StatusCode unread_response = 200"
    by (simp_all add: unread_world_def unread_response_def)
  have d: "fst (CreateMirror sample_enums unread_world cfg_both sample_package) =
     Some (Wrap (Errorf ''unexpected EOF'') ''unable to read mirror response body'')"
    "RemoteURL (fst (snd (CreateMirror sample_enums unread_world cfg_both sample_package))) = []"
    by code_simp+
  from a b c d show ?thesis by (simp add: ok_is_success_def)
qed

theorem CreateMirror_upload_witness:
  "\<not> already_mirrored cfg_both sample_package \<and>
   GetString cfg_both ''gapps.remote_url'' = ''https://transfer.sh/%s'' \<and>
   dq_AddMultiple sample_world (OriginURL sample_package) (MD5 sample_package) 20
     (Size sample_package) = Inr ''/tmp/download-1'' \<and>
   snd (fst (move sample_enums sample_world sample_package ''/tmp/download-1'' ''/data/'')) = None \<and>
   os_Open sample_world (filepath_Clean sample_world
       (upload_path sample_enums cfg_both sample_package ''/tmp/download-1'')) =
     Inr (File ''/data/arm64/20230101/open_gapps-arm64-11.0-pico-20230101.zip'') \<and>
   filter is_HttpDo (snd (snd (CreateMirror sample_enums sample_world cfg_both sample_package))) =
     [HttpDo sample_request] \<and>
   http_Do sample_world sample_request = Inr sample_response \<and>
   StatusCode sample_response = 200 \<and>
   fst (CreateMirror sample_enums sample_world cfg_both sample_package) = None \<and>
   RemoteURL (fst (snd (CreateMirror sample_enums sample_world cfg_both sample_package))) =
     ''https://transfer.sh/Ab3/pkg.zip'' \<and>
   filter is_HttpDo (snd (snd (CreateMirror sample_enums created_world cfg_both sample_package))) =
     [HttpDo sample_request] \<and>
   http_Do created_world sample_request = Inr created_response \<and>
   StatusCode created_response = 201 \<and>
   fst (CreateMirror sample_enums created_world cfg_both sample_package) =
     Some (Errorf ''unable to make upload request: 201 Created'') \<and>
   RemoteURL (fst (snd (CreateMirror sample_enums created_world cfg_both sample_package))) = []"
proof -
  let ?f = "File ''/data/arm64/20230101/open_gapps-arm64-11.0-pico-20230101.zip''"
  have a: "\<not> already_mirrored cfg_both sample_package"
    by (simp add: already_mirrored_def)
  have w: "dq_AddMultiple sample_world (OriginURL sample_package) (MD5 sample_package) 20
     (Size sample_package) = Inr ''/tmp/download-1''"
    "os_Open sample_world (filepath_Clean sample_world
       (upload_path sample_enums cfg_both sample_package ''/tmp/download-1'')) = Inr ?f"
    "http_NewRequest sample_world ''PUT''
      (fmt_Sprintf sample_world (GetString cfg_both ''gapps.remote_url'')
         (Name sample_package)) = None"
    "snd (fst (move sample_enums sample_world sample_package ''/tmp/download-1'' ''/data/'')) = None"
    by (simp_all add: upload_path_sample move_sample_ok)
  have w': "dq_AddMultiple created_world (OriginURL sample_package) (MD5 sample_package) 20
     (Size sample_package) = Inr ''/tmp/download-1''"
    "os_Open created_world (filepath_Clean created_world
       (upload_path sample_enums cfg_both sample_package ''/tmp/download-1'')) = Inr ?f"
    "http_NewRequest created_world ''PUT''
      (fmt_Sprintf created_world (GetString cfg_both ''gapps.remote_url'')
         (Name sample_package)) = None"
    "snd (fst (move sample_enums created_world sample_package ''/tmp/download-1'' ''/data/'')) = None"
    "fmt_Sprintf created_world = sample_Sprintf"
    by (simp_all add: upload_path_sample move_sample_ok, simp_all add: created_world_def)
  have b: "http_Do sample_world sample_request = Inr sample_response"
    "StatusCode sample_response = 200"
    "ReadBody sample_response = Inr ''https://transfer.sh/Ab3/pkg.zip''"
    by (simp_all add: sample_response_def)
  have c: "http_Do created_world sample_request = Inr created_response"
    "StatusCode created_response = 201" "Status created_response = ''201 Created''"
    by (simp_all add: created_world_def created_response_def)
  have q: "\<lparr>Method = ''PUT'',
      URL = sample_Sprintf ''https://transfer.sh/%s'' ''open_gapps-arm64-11.0-pico-20230101.zip'',
      Body = ?f,
      Header = [(''Content-Type'', [''application/zip'']), (''Max-Days'', [''7''])]\<rparr> =
      sample_request"
    by (simp add: sample_request_def)
  note t1 = CreateMirror_upload [of cfg_both sample_package sample_world "''/tmp/download-1''"
      sample_enums ?f sample_request]
  note t2 = CreateMirror_upload [of cfg_both sample_package created_world "''/tmp/download-1''"
      sample_enums ?f sample_request]
  from a w q t1 have s1: "filter is_HttpDo
      (snd (snd (CreateMirror sample_enums sample_world cfg_both sample_package))) =
     [HttpDo sample_request]"
    by simp
  from a w' q t2 have s2: "filter is_HttpDo
      (snd (snd (CreateMirror sample_enums created_world cfg_both sample_package))) =
     [HttpDo sample_request]"
    by simp
  from s1 have m1: "HttpDo sample_request \<in>
      set (snd (snd (CreateMirror sample_enums sample_world cfg_both sample_package)))"
    by (rule in_filtered)
  from s2 have m2: "HttpDo sample_request \<in>
      set (snd (snd (CreateMirror sample_enums created_world cfg_both sample_package)))"
    by (rule in_filtered)
  from a b m1 t1
  have r1: "fst (CreateMirror sample_enums sample_world cfg_both sample_package) = None \<and>
    RemoteURL (fst (snd (CreateMirror sample_enums sample_world cfg_both sample_package))) =
     ''https://transfer.sh/Ab3/pkg.zip''"
    by simp
  from a c m2 t2
  have r2: "fst (CreateMirror sample_enums created_world cfg_both sample_package) =
     Some (Errorf ''unable to make upload request: 201 Created'') \<and>
   RemoteURL (fst (snd (CreateMirror sample_enums created_world cfg_both sample_package))) = []"
    by simp
  from a w b c s1 s2 r1 r2 show ?thesis by simp
qed

end
